theory Spec2Isabelle
  imports Complex_Main "HOL-Library.Sublist"
begin

section \<open>JavaScript values used by the credit-log scripts\<close>

text \<open>
  The scripts compute with strings, numbers and \<open>null\<close>. A string is a list of code
  units (the ASCII range is what the code inspects). A number is either \<open>NaN\<close>, an
  infinity or a finite value; a finite value is represented by the exact rational it
  denotes, so the rounding of IEEE doubles is outside this model. Every property below
  is about which branch the code takes and what it stores, not about rounding.
\<close>

datatype jsnum = NaN | Finite rat | PosInfinity | NegInfinity

datatype jsval = JNull | JStr string | JNum jsnum

datatype jserror = Error string | TypeError string | RangeError string

definition isNaN :: "jsnum \<Rightarrow> bool" where
  "isNaN x \<longleftrightarrow> x = NaN"

fun negate :: "jsnum \<Rightarrow> jsnum" where
  "negate NaN = NaN"
| "negate (Finite q) = Finite (- q)"
| "negate PosInfinity = NegInfinity"
| "negate NegInfinity = PosInfinity"

text \<open>\<open>x <= y\<close> on numbers: false as soon as one side is \<open>NaN\<close>.\<close>

fun num_le :: "jsnum \<Rightarrow> jsnum \<Rightarrow> bool" where
  "num_le NaN _ = False"
| "num_le _ NaN = False"
| "num_le NegInfinity _ = True"
| "num_le _ PosInfinity = True"
| "num_le (Finite a) (Finite b) = (a \<le> b)"
| "num_le (Finite a) NegInfinity = False"
| "num_le PosInfinity (Finite b) = False"
| "num_le PosInfinity NegInfinity = False"

text \<open>\<open>x / r\<close> for a finite, non-zero divisor \<open>r\<close> (the only division the code makes).\<close>

fun num_div :: "jsnum \<Rightarrow> rat \<Rightarrow> jsnum" where
  "num_div NaN r = NaN"
| "num_div (Finite a) r = Finite (a / r)"
| "num_div PosInfinity r = (if 0 < r then PosInfinity else NegInfinity)"
| "num_div NegInfinity r = (if 0 < r then NegInfinity else PosInfinity)"

subsection \<open>String helpers\<close>

text \<open>The white space and line terminators of the ASCII range.\<close>

definition isWhiteSpace :: "char \<Rightarrow> bool" where
  "isWhiteSpace c \<longleftrightarrow> of_char c \<in> {9::int, 10, 11, 12, 13, 32}"

definition trimStart :: "string \<Rightarrow> string" where
  "trimStart s = dropWhile isWhiteSpace s"

definition trim :: "string \<Rightarrow> string" where
  "trim s = rev (dropWhile isWhiteSpace (rev (dropWhile isWhiteSpace s)))"

text \<open>\<open>s.includes(t)\<close>: \<open>t\<close> occurs in \<open>s\<close> as a contiguous run.\<close>

fun str_includes :: "string \<Rightarrow> string \<Rightarrow> bool" where
  "str_includes [] t = (t = [])"
| "str_includes (c # cs) t = (prefix t (c # cs) \<or> str_includes cs t)"

text \<open>\<open>toUpperCase\<close> on the letters \<open>a\<close> to \<open>z\<close>; other code units are kept.\<close>

definition upperChar :: "char \<Rightarrow> char" where
  "upperChar c = (let n = (of_char c :: nat) in if 97 \<le> n \<and> n \<le> 122 then char_of (n - 32) else c)"

definition toUpperCase :: "string \<Rightarrow> string" where
  "toUpperCase s = map upperChar s"

subsection \<open>Reading numbers from text\<close>

definition isDigit :: "char \<Rightarrow> bool" where
  "isDigit c \<longleftrightarrow> 48 \<le> (of_char c :: int) \<and> (of_char c :: int) \<le> 57"

definition digitVal :: "char \<Rightarrow> int" where
  "digitVal c = of_char c - 48"

definition digitChar :: "int \<Rightarrow> char" where
  "digitChar d = char_of (48 + d)"

definition digitsValue :: "string \<Rightarrow> int" where
  "digitsValue ds = foldl (\<lambda>a c. 10 * a + digitVal c) 0 ds"

definition pow10 :: "int \<Rightarrow> rat" where
  "pow10 e = (if 0 \<le> e then 10 ^ nat e else 1 / 10 ^ nat (- e))"

text \<open>An exponent part \<open>e\<close>/\<open>E\<close>, optional sign, at least one digit; absent otherwise.\<close>

definition scanExponent :: "string \<Rightarrow> int \<times> string" where
  "scanExponent s =
     (case s of
        [] \<Rightarrow> (0, s)
      | c # r \<Rightarrow>
          if c = CHR ''e'' \<or> c = CHR ''E'' then
            (let neg = (case r of [] \<Rightarrow> False | d # _ \<Rightarrow> d = CHR ''-'');
                 r1 = (case r of [] \<Rightarrow> r | d # r' \<Rightarrow> if d = CHR ''-'' \<or> d = CHR ''+'' then r' else r);
                 ds = takeWhile isDigit r1
             in if ds = [] then (0, s)
                else (if neg then - digitsValue ds else digitsValue ds,
                      dropWhile isDigit r1))
          else (0, s))"

text \<open>
  The longest prefix that is an unsigned decimal literal of the string-to-number grammar
  (\<open>Infinity\<close>, \<open>12\<close>, \<open>12.\<close>, \<open>12.5\<close>, \<open>.5\<close>, each with an optional exponent), with
  its value and the text left over.
\<close>

definition scanUnsigned :: "string \<Rightarrow> (jsnum \<times> string) option" where
  "scanUnsigned s =
     (if prefix ''Infinity'' s then Some (PosInfinity, drop 8 s)
      else
        (let ip = takeWhile isDigit s;
             r0 = dropWhile isDigit s;
             dot = (case r0 of [] \<Rightarrow> False | c # _ \<Rightarrow> c = CHR ''.'');
             fp = (if dot then takeWhile isDigit (tl r0) else []);
             r1 = (if dot then dropWhile isDigit (tl r0) else r0)
         in if ip = [] \<and> fp = [] then None
            else (case scanExponent r1 of
                    (e, r2) \<Rightarrow>
                      Some (Finite (of_int (digitsValue (ip @ fp)) * pow10 (e - int (length fp))), r2))))"

definition scanDecimal :: "string \<Rightarrow> (jsnum \<times> string) option" where
  "scanDecimal s =
     (case s of
        [] \<Rightarrow> None
      | c # r \<Rightarrow>
          if c = CHR ''+'' then scanUnsigned r
          else if c = CHR ''-'' then map_option (\<lambda>(v, r'). (negate v, r')) (scanUnsigned r)
          else scanUnsigned s)"

definition radixDigitVal :: "char \<Rightarrow> int" where
  "radixDigitVal c =
     (let n = (of_char c :: int) in
      if 48 \<le> n \<and> n \<le> 57 then n - 48
      else if 97 \<le> n \<and> n \<le> 102 then n - 87
      else if 65 \<le> n \<and> n \<le> 70 then n - 55
      else 16)"

definition radixValue :: "int \<Rightarrow> string \<Rightarrow> int" where
  "radixValue b ds = foldl (\<lambda>a c. b * a + radixDigitVal c) 0 ds"

text \<open>Unsigned \<open>0x\<close>, \<open>0o\<close> and \<open>0b\<close> integer literals, which \<open>Number\<close> accepts.\<close>

definition scanRadix :: "string \<Rightarrow> jsnum option" where
  "scanRadix s =
     (case s of
        z # x # ds \<Rightarrow>
          (let b = (if x = CHR ''x'' \<or> x = CHR ''X'' then 16
                    else if x = CHR ''o'' \<or> x = CHR ''O'' then 8
                    else if x = CHR ''b'' \<or> x = CHR ''B'' then 2 else (0::int))
           in if z = CHR ''0'' \<and> b \<noteq> 0 \<and> ds \<noteq> [] \<and> list_all (\<lambda>c. radixDigitVal c < b) ds
              then Some (Finite (of_int (radixValue b ds))) else None)
      | _ \<Rightarrow> None)"

text \<open>
  \<open>Number(text)\<close> on a string: white space is trimmed, the empty string is 0, the whole
  remainder must be one numeric literal, anything else is \<open>NaN\<close>.
\<close>

definition Number :: "string \<Rightarrow> jsnum" where
  "Number text =
     (let t = trim text in
      if t = [] then Finite 0
      else (case scanRadix t of
              Some v \<Rightarrow> v
            | None \<Rightarrow> (case scanDecimal t of Some (v, []) \<Rightarrow> v | _ \<Rightarrow> NaN)))"

text \<open>
  \<open>parseFloat\<close> on a string: leading white space is skipped and the longest decimal
  literal at the start is read; \<open>NaN\<close> when there is none.
\<close>

definition parseFloatString :: "string \<Rightarrow> jsnum" where
  "parseFloatString s = (case scanDecimal (trimStart s) of Some (v, _) \<Rightarrow> v | None \<Rightarrow> NaN)"

text \<open>
  \<open>parseFloat\<close> on any value first turns it into a string: \<open>null\<close> becomes the text
  \<open>null\<close>, and a number prints to text that reads back as the same number.
\<close>

fun parseFloat :: "jsval \<Rightarrow> jsnum" where
  "parseFloat JNull = parseFloatString ''null''"
| "parseFloat (JStr s) = parseFloatString s"
| "parseFloat (JNum n) = n"

subsection \<open>Printing numbers with a fixed number of decimals\<close>

function digitsOf :: "int \<Rightarrow> string" where
  "digitsOf n = (if n < 10 then [digitChar n] else digitsOf (n div 10) @ [digitChar (n mod 10)])"
  by pat_completeness auto

termination
  by (relation "measure nat") auto

declare digitsOf.simps [simp del]

text \<open>
  \<open>x.toFixed(f)\<close>: the nearest multiple of \<open>10^-f\<close> (a tie goes away from zero) written
  in positional digits with exactly \<open>f\<close> decimals. (JavaScript switches to exponent
  notation from \<open>10^21\<close> on; the text still reads back as a number.)
\<close>

definition toFixed :: "jsnum \<Rightarrow> nat \<Rightarrow> string" where
  "toFixed x f =
     (case x of
        NaN \<Rightarrow> ''NaN''
      | PosInfinity \<Rightarrow> ''Infinity''
      | NegInfinity \<Rightarrow> ''-Infinity''
      | Finite q \<Rightarrow>
          (let n = \<lfloor>\<bar>q\<bar> * 10 ^ f + 1 / 2\<rfloor>;
               m = digitsOf n;
               m' = replicate (Suc f - length m) CHR ''0'' @ m;
               k = length m' - f
           in (if q < 0 then ''-'' else '''') @
              (if f = 0 then m' else take k m' @ ''.'' @ drop k m')))"

section \<open>Parsed XML documents\<close>

text \<open>
  The decoders never look at the markup itself: they hand the text to the browser's
  \<open>DOMParser\<close> and query the tree it returns. A document is represented by its root
  element as the parser built it. A parser fault shows up in that tree as an element
  named \<open>parsererror\<close>, which is what the code tests for. Attributes and comments are
  never read by the code and are left out.
\<close>

datatype xnode = Element string "xnode list" | Text string

fun descendants :: "xnode \<Rightarrow> xnode list" where
  "descendants (Text s) = []"
| "descendants (Element n cs) = concat (map (\<lambda>c. c # descendants c) cs)"

fun textContent :: "xnode \<Rightarrow> string" where
  "textContent (Text s) = s"
| "textContent (Element n cs) = concat (map textContent cs)"

fun nodeName :: "xnode \<Rightarrow> string" where
  "nodeName (Element n cs) = n"
| "nodeName (Text s) = ''#text''"

fun isElementNamed :: "string \<Rightarrow> xnode \<Rightarrow> bool" where
  "isElementNamed tag (Element n cs) = (n = tag)"
| "isElementNamed tag (Text s) = False"

text \<open>\<open>element.querySelector(tag)\<close>: the first descendant element of that name, in document order.\<close>

definition querySelector :: "xnode \<Rightarrow> string \<Rightarrow> xnode option" where
  "querySelector element tagName = find (isElementNamed tagName) (descendants element)"

text \<open>\<open>xmlDoc.querySelector(tag)\<close>: the same search over the whole document, root included.\<close>

definition docQuerySelector :: "xnode \<Rightarrow> string \<Rightarrow> xnode option" where
  "docQuerySelector xmlDoc tagName = find (isElementNamed tagName) (xmlDoc # descendants xmlDoc)"

text \<open>\<open>xmlDoc.querySelectorAll('MSG01, MSG02, MSG05, MSG07')\<close>, in document order.\<close>

definition querySelectorAllMsg :: "xnode \<Rightarrow> xnode list" where
  "querySelectorAllMsg xmlDoc =
     filter (\<lambda>n. isElementNamed ''MSG01'' n \<or> isElementNamed ''MSG02'' n \<or>
                  isElementNamed ''MSG05'' n \<or> isElementNamed ''MSG07'' n)
            (xmlDoc # descendants xmlDoc)"

section \<open>Schema decoders (msgClasses.js)\<close>

text \<open>
  The two helpers are declared afresh, with the same text, inside each of the four
  \<open>fromXMLString\<close> methods.
\<close>

definition getElementText :: "xnode \<Rightarrow> string \<Rightarrow> string option" where
  "getElementText element tagName =
     (case querySelector element tagName of None \<Rightarrow> None | Some node \<Rightarrow> Some (textContent node))"

definition getElementNumber :: "xnode \<Rightarrow> string \<Rightarrow> jsnum option" where
  "getElementNumber element tagName =
     (case getElementText element tagName of
        None \<Rightarrow> None
      | Some text \<Rightarrow> if text \<noteq> '''' then Some (Number text) else None)"

subsection \<open>The data objects\<close>

record MsgInfoT =
  SenderCode :: "string option"
  ReceiverCode :: "string option"
  CreatedBy :: "string option"
  SequenceNr :: "jsnum option"
  DateTime :: "string option"
  Status :: "jsnum option"

record FactorT =
  FactorCode :: "string option"
  FactorName :: "string option"

record SellerT =
  SellerNr :: "string option"
  SellerName :: "string option"

text \<open>The seller block of MSG01 carries the address after the two common fields.\<close>

record Seller01T = SellerT +
  NameCont :: "string option"
  Street :: "string option"
  City :: "string option"
  State :: "string option"
  Postcode :: "string option"
  Country :: "string option"

record SellerDetailsT =
  BusinessProduct :: "string option"
  NetPmtTerms :: "jsnum option"
  Discount1Days :: "jsnum option"
  Discount2Days :: "jsnum option"
  GracePeriod :: "jsnum option"
  InvCurrency1 :: "string option"
  ChargeBackPerc :: "jsnum option"
  ChargeBackAmt :: "jsnum option"
  ChargeBackCurrency :: "string option"
  ExpTotSellerTurnover :: "jsnum option"
  ExpNrBuyers :: "jsnum option"
  ExpNrInvoices :: "jsnum option"
  ExpNrCreditNotes :: "jsnum option"
  ExpTurnover :: "jsnum option"
  ExpOtherTurnover :: "jsnum option"
  OtherFactors :: "jsnum option"
  ServiceRequired :: "jsnum option"

record Buyer02T =
  BuyerNr :: "string option"
  BuyerName :: "string option"
  Street :: "string option"
  City :: "string option"
  State :: "string option"
  Postcode :: "string option"
  Country :: "string option"
  DirectContact :: "jsnum option"

record Buyer05T =
  BuyerCompanyRegNr :: "jsnum option"
  BuyerNr :: "string option"
  BuyerName :: "string option"
  Street :: "string option"
  City :: "string option"
  Postcode :: "string option"
  Country :: "string option"
  DirectContact :: "jsnum option"
  Telephone :: "string option"

record Buyer07T =
  BuyerNr :: "string option"
  BuyerName :: "string option"

record PrelCreditAssessDetailsT =
  AmtCreditAssessReq :: "jsnum option"
  Currency :: "string option"
  NetPmtTerms :: "jsnum option"
  Discount1Days :: "jsnum option"
  Discount2Days :: "jsnum option"

record CreditCoverDetailsT =
  Request :: "jsnum option"
  NewCreditCoverAmt :: "jsnum option"
  Currency :: "string option"
  OwnRiskAmt :: "jsnum option"
  OwnRiskPerc :: "jsnum option"
  NetPmtTerms :: "jsnum option"
  Discount1Days :: "jsnum option"
  Discount1Perc :: "jsnum option"
  Discount2Days :: "jsnum option"
  Discount2Perc :: "jsnum option"
  OrderNr :: "jsnum option"

record CurrentCreditCoverDetailsT =
  CurrentCreditCoverAmt :: "jsnum option"
  Currency :: "string option"

record NewCreditCoverDetailsT =
  Request :: "jsnum option"
  NewCreditCoverAmt :: "jsnum option"
  ValidFrom :: "string option"
  LongCreditPeriodDays :: "jsnum option"

text \<open>
  An optional section that is only tested for presence: the code stores \<open>{}\<close> when the
  element exists and \<open>null\<close> when it does not.
\<close>

type_synonym emptyObject = unit

record MSG01Data =
  MsgInfo :: MsgInfoT
  EF :: FactorT
  IF :: FactorT
  MsgDate :: "string option"
  MsgFunction :: "jsnum option"
  FactAgreemSigned :: "string option"
  Seller :: Seller01T
  SellerDetails :: SellerDetailsT
  BankDetailsSeller :: "emptyObject option"
  MsgText :: "string option"

record MSG02Data =
  MsgInfo :: MsgInfoT
  EF :: FactorT
  IF :: FactorT
  RequestDate :: "string option"
  RequestNr :: "string option"
  MsgFunction :: "jsnum option"
  Seller :: SellerT
  Buyer :: Buyer02T
  BankDetailsBuyer :: "emptyObject option"
  PrelCreditAssessDetails :: PrelCreditAssessDetailsT
  MsgText :: "string option"

record MSG05Data =
  MsgInfo :: MsgInfoT
  EF :: FactorT
  IF :: FactorT
  RequestDate :: "string option"
  RequestNr :: "string option"
  MsgFunction :: "jsnum option"
  Seller :: SellerT
  Buyer :: Buyer05T
  BankDetailsBuyer :: "emptyObject option"
  CreditCoverDetails :: CreditCoverDetailsT
  MsgText :: "string option"

record MSG07Data =
  MsgInfo :: MsgInfoT
  EF :: FactorT
  IF :: FactorT
  RequestDate :: "string option"
  RequestNr :: "string option"
  MsgFunction :: "jsnum option"
  Seller :: SellerT
  Buyer :: Buyer07T
  CurrentCreditCoverDetails :: CurrentCreditCoverDetailsT
  NewCreditCoverDetails :: NewCreditCoverDetailsT
  OwnRiskNewCreditCover :: "emptyObject option"
  MsgText :: "string option"

subsection \<open>The message classes\<close>

record 'p Message =
  type :: string
  timestamp :: "string option"
  senderId :: "string option"
  payload :: 'p

text \<open>\<open>data.MsgText || ''\<close>: \<open>null\<close> and the empty string both give the empty string.\<close>

definition orEmpty :: "string option \<Rightarrow> string" where
  "orEmpty v = (case v of None \<Rightarrow> '''' | Some s \<Rightarrow> s)"

record MSG01 = "MSG01Data Message" +
  msgInfo :: MsgInfoT
  ef :: FactorT
  if_ :: FactorT
  msgDate :: "string option"
  msgFunction :: "jsnum option"
  factAgreemSigned :: "string option"
  seller :: Seller01T
  sellerDetails :: SellerDetailsT
  bankDetailsSeller :: emptyObject
  msgText :: string

record MSG02 = "MSG02Data Message" +
  msgInfo :: MsgInfoT
  ef :: FactorT
  if_ :: FactorT
  requestDate :: "string option"
  requestNr :: "string option"
  msgFunction :: "jsnum option"
  seller :: SellerT
  buyer :: Buyer02T
  bankDetailsBuyer :: emptyObject
  prelCreditAssessDetails :: PrelCreditAssessDetailsT
  msgText :: string

record MSG05 = "MSG05Data Message" +
  msgInfo :: MsgInfoT
  ef :: FactorT
  if_ :: FactorT
  requestDate :: "string option"
  requestNr :: "string option"
  msgFunction :: "jsnum option"
  seller :: SellerT
  buyer :: Buyer05T
  bankDetailsBuyer :: emptyObject
  creditCoverDetails :: CreditCoverDetailsT
  msgText :: string

record MSG07 = "MSG07Data Message" +
  msgInfo :: MsgInfoT
  ef :: FactorT
  if_ :: FactorT
  requestDate :: "string option"
  requestNr :: "string option"
  msgFunction :: "jsnum option"
  seller :: SellerT
  buyer :: Buyer07T
  currentCreditCoverDetails :: CurrentCreditCoverDetailsT
  newCreditCoverDetails :: NewCreditCoverDetailsT
  ownRiskNewCreditCover :: emptyObject
  msgText :: string

definition new_MSG01 :: "MSG01Data \<Rightarrow> MSG01" where
  "new_MSG01 data =
     \<lparr> type = ''MSG01'',
       timestamp = DateTime (MSG01Data.MsgInfo data),
       senderId = SenderCode (MSG01Data.MsgInfo data),
       payload = data,
       MSG01.msgInfo = MSG01Data.MsgInfo data,
       MSG01.ef = MSG01Data.EF data,
       MSG01.if_ = MSG01Data.IF data,
       MSG01.msgDate = MSG01Data.MsgDate data,
       MSG01.msgFunction = MSG01Data.MsgFunction data,
       MSG01.factAgreemSigned = MSG01Data.FactAgreemSigned data,
       MSG01.seller = MSG01Data.Seller data,
       MSG01.sellerDetails = MSG01Data.SellerDetails data,
       MSG01.bankDetailsSeller = (),
       MSG01.msgText = orEmpty (MSG01Data.MsgText data) \<rparr>"

definition new_MSG02 :: "MSG02Data \<Rightarrow> MSG02" where
  "new_MSG02 data =
     \<lparr> type = ''MSG02'',
       timestamp = DateTime (MSG02Data.MsgInfo data),
       senderId = SenderCode (MSG02Data.MsgInfo data),
       payload = data,
       MSG02.msgInfo = MSG02Data.MsgInfo data,
       MSG02.ef = MSG02Data.EF data,
       MSG02.if_ = MSG02Data.IF data,
       MSG02.requestDate = MSG02Data.RequestDate data,
       MSG02.requestNr = MSG02Data.RequestNr data,
       MSG02.msgFunction = MSG02Data.MsgFunction data,
       MSG02.seller = MSG02Data.Seller data,
       MSG02.buyer = MSG02Data.Buyer data,
       MSG02.bankDetailsBuyer = (),
       MSG02.prelCreditAssessDetails = MSG02Data.PrelCreditAssessDetails data,
       MSG02.msgText = orEmpty (MSG02Data.MsgText data) \<rparr>"

definition new_MSG05 :: "MSG05Data \<Rightarrow> MSG05" where
  "new_MSG05 data =
     \<lparr> type = ''MSG05'',
       timestamp = DateTime (MSG05Data.MsgInfo data),
       senderId = SenderCode (MSG05Data.MsgInfo data),
       payload = data,
       MSG05.msgInfo = MSG05Data.MsgInfo data,
       MSG05.ef = MSG05Data.EF data,
       MSG05.if_ = MSG05Data.IF data,
       MSG05.requestDate = MSG05Data.RequestDate data,
       MSG05.requestNr = MSG05Data.RequestNr data,
       MSG05.msgFunction = MSG05Data.MsgFunction data,
       MSG05.seller = MSG05Data.Seller data,
       MSG05.buyer = MSG05Data.Buyer data,
       MSG05.bankDetailsBuyer = (),
       MSG05.creditCoverDetails = MSG05Data.CreditCoverDetails data,
       MSG05.msgText = orEmpty (MSG05Data.MsgText data) \<rparr>"

definition new_MSG07 :: "MSG07Data \<Rightarrow> MSG07" where
  "new_MSG07 data =
     \<lparr> type = ''MSG07'',
       timestamp = DateTime (MSG07Data.MsgInfo data),
       senderId = SenderCode (MSG07Data.MsgInfo data),
       payload = data,
       MSG07.msgInfo = MSG07Data.MsgInfo data,
       MSG07.ef = MSG07Data.EF data,
       MSG07.if_ = MSG07Data.IF data,
       MSG07.requestDate = MSG07Data.RequestDate data,
       MSG07.requestNr = MSG07Data.RequestNr data,
       MSG07.msgFunction = MSG07Data.MsgFunction data,
       MSG07.seller = MSG07Data.Seller data,
       MSG07.buyer = MSG07Data.Buyer data,
       MSG07.currentCreditCoverDetails = MSG07Data.CurrentCreditCoverDetails data,
       MSG07.newCreditCoverDetails = MSG07Data.NewCreditCoverDetails data,
       MSG07.ownRiskNewCreditCover = (),
       MSG07.msgText = orEmpty (MSG07Data.MsgText data) \<rparr>"

subsection \<open>Field extraction\<close>

text \<open>
  The object literals for the metadata block, a factor block and the short seller block
  are written out identically in every decoder; each is stated once here.
\<close>

definition read_MsgInfo :: "xnode \<Rightarrow> MsgInfoT" where
  "read_MsgInfo msgInfoElement =
     \<lparr> SenderCode = getElementText msgInfoElement ''SenderCode'',
       ReceiverCode = getElementText msgInfoElement ''ReceiverCode'',
       CreatedBy = getElementText msgInfoElement ''CreatedBy'',
       SequenceNr = getElementNumber msgInfoElement ''SequenceNr'',
       DateTime = getElementText msgInfoElement ''DateTime'',
       Status = getElementNumber msgInfoElement ''Status'' \<rparr>"

definition read_Factor :: "xnode \<Rightarrow> FactorT" where
  "read_Factor factorElement =
     \<lparr> FactorCode = getElementText factorElement ''FactorCode'',
       FactorName = getElementText factorElement ''FactorName'' \<rparr>"

definition read_Seller :: "xnode \<Rightarrow> SellerT" where
  "read_Seller sellerElement =
     \<lparr> SellerNr = getElementText sellerElement ''SellerNr'',
       SellerName = getElementText sellerElement ''SellerName'' \<rparr>"

definition optionalSection :: "xnode \<Rightarrow> string \<Rightarrow> emptyObject option" where
  "optionalSection rootNode tagName =
     (case querySelector rootNode tagName of None \<Rightarrow> None | Some node \<Rightarrow> Some ())"

definition read_MSG01 :: "xnode \<Rightarrow> xnode \<Rightarrow> xnode \<Rightarrow> xnode \<Rightarrow> xnode \<Rightarrow> xnode \<Rightarrow> MSG01Data" where
  "read_MSG01 rootNode msgInfoElement efElement ifElement sellerElement sellerDetailsElement =
     \<lparr> MSG01Data.MsgInfo = read_MsgInfo msgInfoElement,
       MSG01Data.EF = read_Factor efElement,
       MSG01Data.IF = read_Factor ifElement,
       MSG01Data.MsgDate = getElementText rootNode ''MsgDate'',
       MSG01Data.MsgFunction = getElementNumber rootNode ''MsgFunction'',
       MSG01Data.FactAgreemSigned = getElementText rootNode ''FactAgreemSigned'',
       MSG01Data.Seller =
         \<lparr> SellerNr = getElementText sellerElement ''SellerNr'',
           SellerName = getElementText sellerElement ''SellerName'',
           Seller01T.NameCont = getElementText sellerElement ''NameCont'',
           Seller01T.Street = getElementText sellerElement ''Street'',
           Seller01T.City = getElementText sellerElement ''City'',
           Seller01T.State = getElementText sellerElement ''State'',
           Seller01T.Postcode = getElementText sellerElement ''Postcode'',
           Seller01T.Country = getElementText sellerElement ''Country'' \<rparr>,
       MSG01Data.SellerDetails =
         \<lparr> SellerDetailsT.BusinessProduct = getElementText sellerDetailsElement ''BusinessProduct'',
           SellerDetailsT.NetPmtTerms = getElementNumber sellerDetailsElement ''NetPmtTerms'',
           SellerDetailsT.Discount1Days = getElementNumber sellerDetailsElement ''Discount1Days'',
           SellerDetailsT.Discount2Days = getElementNumber sellerDetailsElement ''Discount2Days'',
           SellerDetailsT.GracePeriod = getElementNumber sellerDetailsElement ''GracePeriod'',
           SellerDetailsT.InvCurrency1 = getElementText sellerDetailsElement ''InvCurrency1'',
           SellerDetailsT.ChargeBackPerc = getElementNumber sellerDetailsElement ''ChargeBackPerc'',
           SellerDetailsT.ChargeBackAmt = getElementNumber sellerDetailsElement ''ChargeBackAmt'',
           SellerDetailsT.ChargeBackCurrency = getElementText sellerDetailsElement ''ChargeBackCurrency'',
           SellerDetailsT.ExpTotSellerTurnover = getElementNumber sellerDetailsElement ''ExpTotSellerTurnover'',
           SellerDetailsT.ExpNrBuyers = getElementNumber sellerDetailsElement ''ExpNrBuyers'',
           SellerDetailsT.ExpNrInvoices = getElementNumber sellerDetailsElement ''ExpNrInvoices'',
           SellerDetailsT.ExpNrCreditNotes = getElementNumber sellerDetailsElement ''ExpNrCreditNotes'',
           SellerDetailsT.ExpTurnover = getElementNumber sellerDetailsElement ''ExpTurnover'',
           SellerDetailsT.ExpOtherTurnover = getElementNumber sellerDetailsElement ''ExpOtherTurnover'',
           SellerDetailsT.OtherFactors = getElementNumber sellerDetailsElement ''OtherFactors'',
           SellerDetailsT.ServiceRequired = getElementNumber sellerDetailsElement ''ServiceRequired'' \<rparr>,
       MSG01Data.BankDetailsSeller = optionalSection rootNode ''BankDetailsSeller'',
       MSG01Data.MsgText = getElementText rootNode ''MsgText'' \<rparr>"

definition read_MSG02 :: "xnode \<Rightarrow> xnode \<Rightarrow> xnode \<Rightarrow> xnode \<Rightarrow> xnode \<Rightarrow> xnode \<Rightarrow> xnode \<Rightarrow> MSG02Data" where
  "read_MSG02 rootNode msgInfoElement efElement ifElement sellerElement buyerElement
       prelCreditAssessDetailsElement =
     \<lparr> MSG02Data.MsgInfo = read_MsgInfo msgInfoElement,
       MSG02Data.EF = read_Factor efElement,
       MSG02Data.IF = read_Factor ifElement,
       MSG02Data.RequestDate = getElementText rootNode ''RequestDate'',
       MSG02Data.RequestNr = getElementText rootNode ''RequestNr'',
       MSG02Data.MsgFunction = getElementNumber rootNode ''MsgFunction'',
       MSG02Data.Seller = read_Seller sellerElement,
       MSG02Data.Buyer =
         \<lparr> Buyer02T.BuyerNr = getElementText buyerElement ''BuyerNr'',
           Buyer02T.BuyerName = getElementText buyerElement ''BuyerName'',
           Buyer02T.Street = getElementText buyerElement ''Street'',
           Buyer02T.City = getElementText buyerElement ''City'',
           Buyer02T.State = getElementText buyerElement ''State'',
           Buyer02T.Postcode = getElementText buyerElement ''Postcode'',
           Buyer02T.Country = getElementText buyerElement ''Country'',
           Buyer02T.DirectContact = getElementNumber buyerElement ''DirectContact'' \<rparr>,
       MSG02Data.BankDetailsBuyer = optionalSection rootNode ''BankDetailsBuyer'',
       MSG02Data.PrelCreditAssessDetails =
         \<lparr> PrelCreditAssessDetailsT.AmtCreditAssessReq =
             getElementNumber prelCreditAssessDetailsElement ''AmtCreditAssessReq'',
           PrelCreditAssessDetailsT.Currency = getElementText prelCreditAssessDetailsElement ''Currency'',
           PrelCreditAssessDetailsT.NetPmtTerms = getElementNumber prelCreditAssessDetailsElement ''NetPmtTerms'',
           PrelCreditAssessDetailsT.Discount1Days =
             getElementNumber prelCreditAssessDetailsElement ''Discount1Days'',
           PrelCreditAssessDetailsT.Discount2Days =
             getElementNumber prelCreditAssessDetailsElement ''Discount2Days'' \<rparr>,
       MSG02Data.MsgText = getElementText rootNode ''MsgText'' \<rparr>"

definition read_MSG05 :: "xnode \<Rightarrow> xnode \<Rightarrow> xnode \<Rightarrow> xnode \<Rightarrow> xnode \<Rightarrow> xnode \<Rightarrow> xnode \<Rightarrow> MSG05Data" where
  "read_MSG05 rootNode msgInfoElement efElement ifElement sellerElement buyerElement
       creditCoverDetailsElement =
     \<lparr> MSG05Data.MsgInfo = read_MsgInfo msgInfoElement,
       MSG05Data.EF = read_Factor efElement,
       MSG05Data.IF = read_Factor ifElement,
       MSG05Data.RequestDate = getElementText rootNode ''RequestDate'',
       MSG05Data.RequestNr = getElementText rootNode ''RequestNr'',
       MSG05Data.MsgFunction = getElementNumber rootNode ''MsgFunction'',
       MSG05Data.Seller = read_Seller sellerElement,
       MSG05Data.Buyer =
         \<lparr> Buyer05T.BuyerCompanyRegNr = getElementNumber buyerElement ''BuyerCompanyRegNr'',
           Buyer05T.BuyerNr = getElementText buyerElement ''BuyerNr'',
           Buyer05T.BuyerName = getElementText buyerElement ''BuyerName'',
           Buyer05T.Street = getElementText buyerElement ''Street'',
           Buyer05T.City = getElementText buyerElement ''City'',
           Buyer05T.Postcode = getElementText buyerElement ''Postcode'',
           Buyer05T.Country = getElementText buyerElement ''Country'',
           Buyer05T.DirectContact = getElementNumber buyerElement ''DirectContact'',
           Buyer05T.Telephone = getElementText buyerElement ''Telephone'' \<rparr>,
       MSG05Data.BankDetailsBuyer = optionalSection rootNode ''BankDetailsBuyer'',
       MSG05Data.CreditCoverDetails =
         \<lparr> CreditCoverDetailsT.Request = getElementNumber creditCoverDetailsElement ''Request'',
           CreditCoverDetailsT.NewCreditCoverAmt = getElementNumber creditCoverDetailsElement ''NewCreditCoverAmt'',
           CreditCoverDetailsT.Currency = getElementText creditCoverDetailsElement ''Currency'',
           CreditCoverDetailsT.OwnRiskAmt = getElementNumber creditCoverDetailsElement ''OwnRiskAmt'',
           CreditCoverDetailsT.OwnRiskPerc = getElementNumber creditCoverDetailsElement ''OwnRiskPerc'',
           CreditCoverDetailsT.NetPmtTerms = getElementNumber creditCoverDetailsElement ''NetPmtTerms'',
           CreditCoverDetailsT.Discount1Days = getElementNumber creditCoverDetailsElement ''Discount1Days'',
           CreditCoverDetailsT.Discount1Perc = getElementNumber creditCoverDetailsElement ''Discount1Perc'',
           CreditCoverDetailsT.Discount2Days = getElementNumber creditCoverDetailsElement ''Discount2Days'',
           CreditCoverDetailsT.Discount2Perc = getElementNumber creditCoverDetailsElement ''Discount2Perc'',
           CreditCoverDetailsT.OrderNr = getElementNumber creditCoverDetailsElement ''OrderNr'' \<rparr>,
       MSG05Data.MsgText = getElementText rootNode ''MsgText'' \<rparr>"

definition read_MSG07 ::
  "xnode \<Rightarrow> xnode \<Rightarrow> xnode \<Rightarrow> xnode \<Rightarrow> xnode \<Rightarrow> xnode \<Rightarrow> xnode \<Rightarrow> xnode \<Rightarrow> MSG07Data" where
  "read_MSG07 rootNode msgInfoElement efElement ifElement sellerElement buyerElement
       currentCreditCoverDetailsElement newCreditCoverDetailsElement =
     \<lparr> MSG07Data.MsgInfo = read_MsgInfo msgInfoElement,
       MSG07Data.EF = read_Factor efElement,
       MSG07Data.IF = read_Factor ifElement,
       MSG07Data.RequestDate = getElementText rootNode ''RequestDate'',
       MSG07Data.RequestNr = getElementText rootNode ''RequestNr'',
       MSG07Data.MsgFunction = getElementNumber rootNode ''MsgFunction'',
       MSG07Data.Seller = read_Seller sellerElement,
       MSG07Data.Buyer =
         \<lparr> Buyer07T.BuyerNr = getElementText buyerElement ''BuyerNr'',
           Buyer07T.BuyerName = getElementText buyerElement ''BuyerName'' \<rparr>,
       MSG07Data.CurrentCreditCoverDetails =
         \<lparr> CurrentCreditCoverDetailsT.CurrentCreditCoverAmt =
             getElementNumber currentCreditCoverDetailsElement ''CurrentCreditCoverAmt'',
           CurrentCreditCoverDetailsT.Currency = getElementText currentCreditCoverDetailsElement ''Currency'' \<rparr>,
       MSG07Data.NewCreditCoverDetails =
         \<lparr> NewCreditCoverDetailsT.Request = getElementNumber newCreditCoverDetailsElement ''Request'',
           NewCreditCoverDetailsT.NewCreditCoverAmt =
             getElementNumber newCreditCoverDetailsElement ''NewCreditCoverAmt'',
           NewCreditCoverDetailsT.ValidFrom = getElementText newCreditCoverDetailsElement ''ValidFrom'',
           NewCreditCoverDetailsT.LongCreditPeriodDays =
             getElementNumber newCreditCoverDetailsElement ''LongCreditPeriodDays'' \<rparr>,
       MSG07Data.OwnRiskNewCreditCover = optionalSection rootNode ''OwnRiskNewCreditCover'',
       MSG07Data.MsgText = getElementText rootNode ''MsgText'' \<rparr>"

subsection \<open>The four \<open>fromXMLString\<close> methods\<close>

text \<open>
  Each throws an \<open>Error\<close> with a fixed message; the model returns it on the left.
  MSG01 and MSG02 test the required sections one after the other, MSG05 and MSG07 look
  all of them up first and test them together.
\<close>

definition MSG01_fromXMLString :: "xnode \<Rightarrow> jserror + MSG01" where
  "MSG01_fromXMLString xmlDoc =
     (case docQuerySelector xmlDoc ''parsererror'' of
        Some errorNode \<Rightarrow> Inl (Error ''Failed to parse XML string.'')
      | None \<Rightarrow>
     (case docQuerySelector xmlDoc ''MSG01'' of
        None \<Rightarrow> Inl (Error ''Invalid MSG01 XML structure: Root <MSG01> element not found.'')
      | Some rootNode \<Rightarrow>
     (case querySelector rootNode ''MsgInfo'' of
        None \<Rightarrow> Inl (Error ''Invalid MSG01 XML structure: <MsgInfo> element not found.'')
      | Some msgInfoElement \<Rightarrow>
     (case querySelector rootNode ''EF'' of
        None \<Rightarrow> Inl (Error ''Invalid MSG01 XML structure: <EF> element not found.'')
      | Some efElement \<Rightarrow>
     (case querySelector rootNode ''IF'' of
        None \<Rightarrow> Inl (Error ''Invalid MSG01 XML structure: <IF> element not found.'')
      | Some ifElement \<Rightarrow>
     (case querySelector rootNode ''Seller'' of
        None \<Rightarrow> Inl (Error ''Invalid MSG01 XML structure: <Seller> element not found.'')
      | Some sellerElement \<Rightarrow>
     (case querySelector rootNode ''SellerDetails'' of
        None \<Rightarrow> Inl (Error ''Invalid MSG01 XML structure: <SellerDetails> element not found.'')
      | Some sellerDetailsElement \<Rightarrow>
          Inr (new_MSG01 (read_MSG01 rootNode msgInfoElement efElement ifElement sellerElement
                 sellerDetailsElement)))))))))"

definition MSG02_fromXMLString :: "xnode \<Rightarrow> jserror + MSG02" where
  "MSG02_fromXMLString xmlDoc =
     (case docQuerySelector xmlDoc ''parsererror'' of
        Some errorNode \<Rightarrow> Inl (Error ''Failed to parse XML string.'')
      | None \<Rightarrow>
     (case docQuerySelector xmlDoc ''MSG02'' of
        None \<Rightarrow> Inl (Error ''Invalid MSG02 XML structure: Root <MSG02> element not found.'')
      | Some rootNode \<Rightarrow>
     (case querySelector rootNode ''MsgInfo'' of
        None \<Rightarrow> Inl (Error ''Invalid MSG02 XML structure: <MsgInfo> element not found.'')
      | Some msgInfoElement \<Rightarrow>
     (case querySelector rootNode ''EF'' of
        None \<Rightarrow> Inl (Error ''Invalid MSG02 XML structure: <EF> element not found.'')
      | Some efElement \<Rightarrow>
     (case querySelector rootNode ''IF'' of
        None \<Rightarrow> Inl (Error ''Invalid MSG02 XML structure: <IF> element not found.'')
      | Some ifElement \<Rightarrow>
     (case querySelector rootNode ''Seller'' of
        None \<Rightarrow> Inl (Error ''Invalid MSG02 XML structure: <Seller> element not found.'')
      | Some sellerElement \<Rightarrow>
     (case querySelector rootNode ''Buyer'' of
        None \<Rightarrow> Inl (Error ''Invalid MSG02 XML structure: <Buyer> element not found.'')
      | Some buyerElement \<Rightarrow>
     (case querySelector rootNode ''PrelCreditAssessDetails'' of
        None \<Rightarrow> Inl (Error ''Invalid MSG02 XML structure: <PrelCreditAssessDetails> element not found.'')
      | Some prelCreditAssessDetailsElement \<Rightarrow>
          Inr (new_MSG02 (read_MSG02 rootNode msgInfoElement efElement ifElement sellerElement
                 buyerElement prelCreditAssessDetailsElement))))))))))"

definition MSG05_fromXMLString :: "xnode \<Rightarrow> jserror + MSG05" where
  "MSG05_fromXMLString xmlDoc =
     (case docQuerySelector xmlDoc ''parsererror'' of
        Some errorNode \<Rightarrow> Inl (Error ''Failed to parse XML string.'')
      | None \<Rightarrow>
     (case docQuerySelector xmlDoc ''MSG05'' of
        None \<Rightarrow> Inl (Error ''Invalid MSG05 XML structure: Root <MSG05> element not found.'')
      | Some rootNode \<Rightarrow>
     (case (querySelector rootNode ''MsgInfo'', querySelector rootNode ''EF'', querySelector rootNode ''IF'',
            querySelector rootNode ''Seller'', querySelector rootNode ''Buyer'',
            querySelector rootNode ''CreditCoverDetails'') of
        (Some msgInfoElement, Some efElement, Some ifElement, Some sellerElement,
         Some buyerElement, Some creditCoverDetailsElement) \<Rightarrow>
          Inr (new_MSG05 (read_MSG05 rootNode msgInfoElement efElement ifElement sellerElement
                 buyerElement creditCoverDetailsElement))
      | _ \<Rightarrow> Inl (Error ''Missing required elements in MSG05 XML.''))))"

definition MSG07_fromXMLString :: "xnode \<Rightarrow> jserror + MSG07" where
  "MSG07_fromXMLString xmlDoc =
     (case docQuerySelector xmlDoc ''parsererror'' of
        Some errorNode \<Rightarrow> Inl (Error ''Failed to parse XML string.'')
      | None \<Rightarrow>
     (case docQuerySelector xmlDoc ''MSG07'' of
        None \<Rightarrow> Inl (Error ''Invalid MSG07 XML structure: Root <MSG07> element not found.'')
      | Some rootNode \<Rightarrow>
     (case (querySelector rootNode ''MsgInfo'', querySelector rootNode ''EF'', querySelector rootNode ''IF'',
            querySelector rootNode ''Seller'', querySelector rootNode ''Buyer'',
            querySelector rootNode ''CurrentCreditCoverDetails'',
            querySelector rootNode ''NewCreditCoverDetails'') of
        (Some msgInfoElement, Some efElement, Some ifElement, Some sellerElement,
         Some buyerElement, Some currentCreditCoverDetailsElement,
         Some newCreditCoverDetailsElement) \<Rightarrow>
          Inr (new_MSG07 (read_MSG07 rootNode msgInfoElement efElement ifElement sellerElement
                 buyerElement currentCreditCoverDetailsElement newCreditCoverDetailsElement))
      | _ \<Rightarrow> Inl (Error ''Missing required elements in MSG07 XML.''))))"

section \<open>The page script: collections, conversion, classification\<close>

subsection \<open>Module state\<close>

text \<open>
  The rate table is the \<open>rates\<close> object of the provider's JSON answer: a finite map from
  currency code to a number. \<open>exchangeRates\<close> starts as \<open>null\<close>.
\<close>

type_synonym rateTable = "string \<rightharpoonup> rat"

record globals =
  allMsg01s :: "string \<rightharpoonup> MSG01"
  allMsg02s :: "MSG02 list"
  allMsg05s :: "MSG05 list"
  allMsg07s :: "MSG07 list"
  exchangeRates :: "rateTable option"

definition initialGlobals :: globals where
  "initialGlobals =
     \<lparr> allMsg01s = Map.empty, allMsg02s = [], allMsg05s = [], allMsg07s = [],
       exchangeRates = None \<rparr>"

definition resetGlobalMessageCollections :: "globals \<Rightarrow> globals" where
  "resetGlobalMessageCollections g =
     g\<lparr> allMsg01s := Map.empty, allMsg02s := [], allMsg05s := [], allMsg07s := [] \<rparr>"

text \<open>A value substituted into a template literal: \<open>null\<close> prints as the text \<open>null\<close>.\<close>

definition templateText :: "string option \<Rightarrow> string" where
  "templateText v = (case v of None \<Rightarrow> ''null'' | Some s \<Rightarrow> s)"

text \<open>The correlation key \<open>`${SenderCode}_${SellerNr}`\<close>.\<close>

definition correlationKey :: "string option \<Rightarrow> string option \<Rightarrow> string" where
  "correlationKey senderCode sellerNr = templateText senderCode @ ''_'' @ templateText sellerNr"

subsection \<open>Decoding the message nodes of a document\<close>

text \<open>
  The body of \<open>msgNodes.forEach\<close>. The node is serialised with \<open>outerHTML\<close> and parsed
  again by the decoder, which gives the node back as the root of a new document. A decoder
  error is caught and logged; the collections are then left as they were.
\<close>

definition processMsgNode :: "globals \<Rightarrow> xnode \<Rightarrow> globals" where
  "processMsgNode g node =
     (if nodeName node = ''MSG01'' then
        (case MSG01_fromXMLString node of
           Inl error \<Rightarrow> g
         | Inr instance \<Rightarrow>
             g\<lparr> allMsg01s := (allMsg01s g)
                   (correlationKey (SenderCode (MSG01.msgInfo instance)) (SellerNr (MSG01.seller instance))
                      \<mapsto> instance) \<rparr>)
      else if nodeName node = ''MSG02'' then
        (case MSG02_fromXMLString node of
           Inl error \<Rightarrow> g
         | Inr instance \<Rightarrow> g\<lparr> allMsg02s := allMsg02s g @ [instance] \<rparr>)
      else if nodeName node = ''MSG05'' then
        (case MSG05_fromXMLString node of
           Inl error \<Rightarrow> g
         | Inr instance \<Rightarrow> g\<lparr> allMsg05s := allMsg05s g @ [instance] \<rparr>)
      else if nodeName node = ''MSG07'' then
        (case MSG07_fromXMLString node of
           Inl error \<Rightarrow> g
         | Inr instance \<Rightarrow> g\<lparr> allMsg07s := allMsg07s g @ [instance] \<rparr>)
      else g)"

definition processMsgNodes :: "globals \<Rightarrow> xnode list \<Rightarrow> globals" where
  "processMsgNodes g msgNodes = foldl processMsgNode g msgNodes"

definition processDocument :: "globals \<Rightarrow> xnode \<Rightarrow> globals" where
  "processDocument g xmlDoc = processMsgNodes g (querySelectorAllMsg xmlDoc)"

subsection \<open>Conversion to USD\<close>

definition convertToUSD :: "jsval \<Rightarrow> string option \<Rightarrow> rateTable option \<Rightarrow> jsval" where
  "convertToUSD amount currency rates =
     (if amount = JNull \<or> amount = JStr '''' then JStr '' ''
      else (case currency of
              None \<Rightarrow> JStr ''N/A''
            | Some cur \<Rightarrow>
                if cur = '''' then JStr ''N/A''
                else
                  (let numericAmount = parseFloat amount in
                   if isNaN numericAmount then JStr ''Invalid Amount''
                   else (case rates of
                           None \<Rightarrow> JStr ''Failed to fetch rates''
                         | Some table \<Rightarrow>
                             if toUpperCase cur = ''USD'' then amount
                             else (case table (toUpperCase cur) of
                                     None \<Rightarrow> JStr (toFixed numericAmount 2 @ '' '' @ cur @ '' (No Rate)'')
                                   | Some rate \<Rightarrow>
                                       if rate = 0
                                       then JStr (toFixed numericAmount 2 @ '' '' @ cur @ '' (No Rate)'')
                                       else JNum (num_div numericAmount rate))))))"

subsection \<open>Classification\<close>

definition treyCountryCodes :: "string list" where
  "treyCountryCodes = [''AM'', ''EG'', ''GR'', ''IN'', ''MT'', ''RO'', ''TW'', ''TR'', ''VN'']"

definition treySpecialCodes :: "string list" where
  "treySpecialCodes = [''SG'', ''JP'', ''US'']"

text \<open>
  \<open>factorName\<close> is \<open>null\<close> when the factor block has no name element; calling
  \<open>includes\<close> on it throws a \<open>TypeError\<close>, recorded here with the property that was read.
\<close>

definition getCreditManager :: "string \<Rightarrow> jsval \<Rightarrow> string option \<Rightarrow> jserror + string" where
  "getCreditManager countryCode creditLine factorName =
     (let numericCreditLine = parseFloat creditLine in
      if isNaN numericCreditLine then Inr ''N/A''
      else if num_le numericCreditLine (Finite 500000) then Inr ''lux''
      else if countryCode \<in> set treyCountryCodes then Inr ''trey''
      else if countryCode \<in> set treySpecialCodes then
        (case factorName of
           None \<Rightarrow> Inl (TypeError ''includes'')
         | Some name \<Rightarrow>
             if countryCode = ''SG'' \<and> str_includes name ''Mogli'' then Inr ''trey''
             else if countryCode = ''JP'' \<and>
                     (str_includes name ''Mitsubishi'' \<or> str_includes name ''Sumitomo Mitsui'')
               then Inr ''trey''
             else if countryCode = ''US'' \<and> str_includes name ''Standard Chartered Bank New York''
               then Inr ''trey''
             else Inr ''bost'')
      else Inr ''bost'')"

subsection \<open>Rows\<close>

datatype transaction = T02 MSG02 | T05 MSG05 | T07 MSG07

record row =
  requestDate :: string
  dateReceived :: string
  reminder :: string
  newAcctNameAddressChange :: string
  cancellation :: string
  buyerName :: "string option"
  buyerCountry :: string
  sellerName :: "string option"
  sellerCountry :: string
  partnerName :: "string option"
  partnerCountry :: string
  messageType :: string
  amountReq :: jsval
  currency :: "string option"
  term_ :: jsval
  contactAllowed :: string
  msgFunctionCode :: string
  amtApproved :: string
  msg3ExpirationDate :: string
  insurance :: string
  responseDate :: string
  ofacDate :: string
  rate :: string
  incomingComments :: string
  creditComments :: string
  aeComments :: string
  daysToRespond :: string
  creditManager :: string
  aeCso :: string
  industryProduct :: "string option"
  clientCode :: "string option"
  amountReqUSD :: string

text \<open>The properties every transaction class has, read off the instance.\<close>

fun txType :: "transaction \<Rightarrow> string" where
  "txType (T02 m) = type m"
| "txType (T05 m) = type m"
| "txType (T07 m) = type m"

fun txMsgInfo :: "transaction \<Rightarrow> MsgInfoT" where
  "txMsgInfo (T02 m) = MSG02.msgInfo m"
| "txMsgInfo (T05 m) = MSG05.msgInfo m"
| "txMsgInfo (T07 m) = MSG07.msgInfo m"

fun txSeller :: "transaction \<Rightarrow> SellerT" where
  "txSeller (T02 m) = MSG02.seller m"
| "txSeller (T05 m) = MSG05.seller m"
| "txSeller (T07 m) = MSG07.seller m"

fun txEf :: "transaction \<Rightarrow> FactorT" where
  "txEf (T02 m) = MSG02.ef m"
| "txEf (T05 m) = MSG05.ef m"
| "txEf (T07 m) = MSG07.ef m"

fun txMsgText :: "transaction \<Rightarrow> string" where
  "txMsgText (T02 m) = MSG02.msgText m"
| "txMsgText (T05 m) = MSG05.msgText m"
| "txMsgText (T07 m) = MSG07.msgText m"

fun txRequestDate :: "transaction \<Rightarrow> string option" where
  "txRequestDate (T02 m) = MSG02.requestDate m"
| "txRequestDate (T05 m) = MSG05.requestDate m"
| "txRequestDate (T07 m) = MSG07.requestDate m"

fun txBuyerName :: "transaction \<Rightarrow> string option" where
  "txBuyerName (T02 m) = Buyer02T.BuyerName (MSG02.buyer m)"
| "txBuyerName (T05 m) = Buyer05T.BuyerName (MSG05.buyer m)"
| "txBuyerName (T07 m) = Buyer07T.BuyerName (MSG07.buyer m)"

text \<open>\<open>msg.buyer.Country || ''\<close>: the MSG07 buyer has no such property.\<close>

fun txBuyerCountry :: "transaction \<Rightarrow> string" where
  "txBuyerCountry (T02 m) = orEmpty (Buyer02T.Country (MSG02.buyer m))"
| "txBuyerCountry (T05 m) = orEmpty (Buyer05T.Country (MSG05.buyer m))"
| "txBuyerCountry (T07 m) = ''''"

definition numberOrNull :: "jsnum option \<Rightarrow> jsval" where
  "numberOrNull v = (case v of None \<Rightarrow> JNull | Some n \<Rightarrow> JNum n)"

text \<open>\<open>DirectContact == 1 ? 'Yes' : 'No'\<close>\<close>

definition yesIfOne :: "jsnum option \<Rightarrow> string" where
  "yesIfOne v = (if v = Some (Finite 1) then ''Yes'' else ''No'')"

text \<open>\<open>s.slice(-1)\<close>: the last code unit, as a string.\<close>

definition sliceLast :: "string \<Rightarrow> string" where
  "sliceLast s = (if s = [] then [] else [last s])"

text \<open>
  The row object as first written, before the fields that depend on the message kind are
  filled in.
\<close>

definition initialRow :: "transaction \<Rightarrow> row" where
  "initialRow msg =
     \<lparr> requestDate = '''',
       dateReceived =
         (case DateTime (txMsgInfo msg) of
            None \<Rightarrow> ''''
          | Some dt \<Rightarrow> if dt = '''' then '''' else take 10 dt),
       reminder = ''No'',
       newAcctNameAddressChange = ''No'',
       cancellation = ''No'',
       buyerName = txBuyerName msg,
       buyerCountry = txBuyerCountry msg,
       sellerName = SellerName (txSeller msg),
       sellerCountry = '''',
       partnerName = FactorName (txEf msg),
       partnerCountry = '''',
       messageType = sliceLast (txType msg),
       amountReq = JStr '''',
       currency = Some '''',
       term_ = JStr '''',
       contactAllowed = ''No'',
       msgFunctionCode = '''',
       amtApproved = '''',
       msg3ExpirationDate = '''',
       insurance = '''',
       responseDate = '''',
       ofacDate = '''',
       rate = '''',
       incomingComments = txMsgText msg,
       creditComments = '''',
       aeComments = '''',
       daysToRespond = '''',
       creditManager = '''',
       aeCso = '''',
       industryProduct = Some '''',
       clientCode = FactorCode (txEf msg),
       amountReqUSD = '''' \<rparr>"

fun kindFields :: "transaction \<Rightarrow> row \<Rightarrow> row" where
  "kindFields (T02 m) r =
     r\<lparr> requestDate := orEmpty (MSG02.requestDate m),
        amountReq := numberOrNull (AmtCreditAssessReq (prelCreditAssessDetails m)),
        currency := PrelCreditAssessDetailsT.Currency (prelCreditAssessDetails m),
        term_ := numberOrNull (PrelCreditAssessDetailsT.NetPmtTerms (prelCreditAssessDetails m)),
        contactAllowed := yesIfOne (Buyer02T.DirectContact (MSG02.buyer m)) \<rparr>"
| "kindFields (T05 m) r =
     r\<lparr> requestDate := orEmpty (MSG05.requestDate m),
        amountReq := numberOrNull (CreditCoverDetailsT.NewCreditCoverAmt (creditCoverDetails m)),
        currency := CreditCoverDetailsT.Currency (creditCoverDetails m),
        term_ := numberOrNull (CreditCoverDetailsT.NetPmtTerms (creditCoverDetails m)),
        contactAllowed := yesIfOne (Buyer05T.DirectContact (MSG05.buyer m)) \<rparr>"
| "kindFields (T07 m) r =
     r\<lparr> requestDate := orEmpty (MSG07.requestDate m),
        amountReq := numberOrNull (NewCreditCoverDetailsT.NewCreditCoverAmt (newCreditCoverDetails m)),
        currency := CurrentCreditCoverDetailsT.Currency (currentCreditCoverDetails m),
        term_ := numberOrNull (LongCreditPeriodDays (newCreditCoverDetails m)) \<rparr>"

text \<open>
  The body of the \<open>forEach\<close> in \<open>generateCombinedDisplayData\<close>. Two calls can throw
  and nothing catches them: \<open>substring\<close> on a \<open>null\<close> factor code, and
  \<open>regionNames.of\<close>, which rejects a code that is not shaped like a region code
  (\<open>regionNamesOf\<close> is \<open>None\<close> there). The third is \<open>getCreditManager\<close> above.
\<close>

definition buildRow ::
  "(string \<Rightarrow> string option) \<Rightarrow> globals \<Rightarrow> transaction \<Rightarrow> jserror + row" where
  "buildRow regionNamesOf g msg =
     (let key = correlationKey (SenderCode (txMsgInfo msg)) (SellerNr (txSeller msg));
          matchedMsg01 = allMsg01s g key;
          row1 = kindFields msg (initialRow msg);
          row2 = (case matchedMsg01 of
                    None \<Rightarrow> row1
                  | Some m01 \<Rightarrow> row1\<lparr> industryProduct := BusinessProduct (sellerDetails m01) \<rparr>)
      in case FactorCode (txEf msg) of
           None \<Rightarrow> Inl (TypeError ''substring'')
         | Some factorCode \<Rightarrow>
             (let exportFactorCodeCharacters = take 2 factorCode in
              case (if exportFactorCodeCharacters = '''' then Some ''''
                    else regionNamesOf exportFactorCodeCharacters) of
                None \<Rightarrow> Inl (RangeError exportFactorCodeCharacters)
              | Some country \<Rightarrow>
                  (let row3 = row2\<lparr> partnerCountry := country, sellerCountry := country \<rparr>;
                       creditAmountUSDformat =
                         convertToUSD (amountReq row3) (currency row3) (exchangeRates g)
                   in case getCreditManager exportFactorCodeCharacters creditAmountUSDformat
                             (partnerName row3) of
                        Inl e \<Rightarrow> Inl e
                      | Inr manager \<Rightarrow> Inr (row3\<lparr> creditManager := manager \<rparr>))))"

text \<open>A \<open>forEach\<close> whose body may throw: the first exception ends the loop.\<close>

fun forEachRow :: "('a \<Rightarrow> jserror + row) \<Rightarrow> 'a list \<Rightarrow> jserror + row list" where
  "forEachRow f [] = Inr []"
| "forEachRow f (m # ms) =
     (case f m of
        Inl e \<Rightarrow> Inl e
      | Inr r \<Rightarrow> (case forEachRow f ms of Inl e \<Rightarrow> Inl e | Inr rs \<Rightarrow> Inr (r # rs)))"

subsection \<open>Sorting by date received\<close>

text \<open>
  \<open>new Date(a.dateReceived) - new Date(b.dateReceived)\<close>. \<open>dateValue\<close> is the time
  value the engine's date parser gives a string, \<open>None\<close> for an invalid date; the
  difference of two dates is \<open>NaN\<close> as soon as one of them is invalid.
\<close>

definition dateDifference :: "(string \<Rightarrow> int option) \<Rightarrow> row \<Rightarrow> row \<Rightarrow> jsnum" where
  "dateDifference dateValue a b =
     (case dateValue (dateReceived a) of
        None \<Rightarrow> NaN
      | Some ta \<Rightarrow> (case dateValue (dateReceived b) of
                       None \<Rightarrow> NaN
                     | Some tb \<Rightarrow> Finite (of_int (ta - tb))))"

text \<open>
  \<open>Array.prototype.sort\<close> with a comparison function. The sort is stable, and a
  comparison result of \<open>NaN\<close> counts as 0. With a consistent comparison function every
  stable sort returns the same array; the model is insertion sort. When the comparison
  function is not consistent the language leaves the order to the engine, and the model
  then shows what insertion sort (the method of the common engines on short arrays) does.
\<close>

fun comesAfter :: "jsnum \<Rightarrow> bool" where
  "comesAfter NaN = False"
| "comesAfter (Finite q) = (0 < q)"
| "comesAfter PosInfinity = True"
| "comesAfter NegInfinity = False"

fun insertInOrder :: "('a \<Rightarrow> 'a \<Rightarrow> jsnum) \<Rightarrow> 'a \<Rightarrow> 'a list \<Rightarrow> 'a list" where
  "insertInOrder comparefn x [] = [x]"
| "insertInOrder comparefn x (y # ys) =
     (if comesAfter (comparefn x y) then y # insertInOrder comparefn x ys else x # y # ys)"

definition arraySort :: "('a \<Rightarrow> 'a \<Rightarrow> jsnum) \<Rightarrow> 'a list \<Rightarrow> 'a list" where
  "arraySort comparefn xs = foldr (insertInOrder comparefn) xs []"

definition allTransactions :: "globals \<Rightarrow> transaction list" where
  "allTransactions g = map T02 (allMsg02s g) @ map T05 (allMsg05s g) @ map T07 (allMsg07s g)"

definition generateCombinedDisplayData ::
  "(string \<Rightarrow> string option) \<Rightarrow> (string \<Rightarrow> int option) \<Rightarrow> globals \<Rightarrow> jserror + row list" where
  "generateCombinedDisplayData regionNamesOf dateValue g =
     (case forEachRow (buildRow regionNamesOf g) (allTransactions g) of
        Inl e \<Rightarrow> Inl e
      | Inr combinedData \<Rightarrow> Inr (arraySort (dateDifference dateValue) combinedData))"

subsection \<open>The click handler\<close>

text \<open>
  One click: the collections are reset, the rates are fetched (the table is assigned only
  when the fetch succeeds), every uploaded document is decoded, and once the last one
  has been read the rows are generated. \<open>uploadedFiles\<close> holds the documents the parser
  returned for the files, in the order they finished loading. With no file nothing is
  generated.
\<close>

datatype fetchOutcome = FetchFailed | FetchSucceeded rateTable

definition processButton_click ::
  "(string \<Rightarrow> string option) \<Rightarrow> (string \<Rightarrow> int option) \<Rightarrow> globals \<Rightarrow> fetchOutcome \<Rightarrow>
     xnode list \<Rightarrow> globals \<times> (jserror + row list) option" where
  "processButton_click regionNamesOf dateValue g outcome uploadedFiles =
     (let g1 = resetGlobalMessageCollections g;
          g2 = (case outcome of
                  FetchFailed \<Rightarrow> g1
                | FetchSucceeded rates \<Rightarrow> g1\<lparr> exchangeRates := Some rates \<rparr>);
          g3 = foldl processDocument g2 uploadedFiles
      in (g3, if uploadedFiles = [] then None
              else Some (generateCombinedDisplayData regionNamesOf dateValue g3)))"

section \<open>Files as the parser sees them\<close>

text \<open>
  The text of an uploaded file, as far as the browser's \<open>DOMParser\<close> is concerned: a
  root element around a run of fragments, each of which is well-formed markup (given by
  its tree) or is not. By the DOM parsing standard a text that is not well-formed gives a
  document whose only element is \<open>parsererror\<close>; nothing of the rest of the file is
  in it.
\<close>

datatype fragmentText = WellFormed xnode | Malformed string

fun isWellFormed :: "fragmentText \<Rightarrow> bool" where
  "isWellFormed (WellFormed node) = True"
| "isWellFormed (Malformed markup) = False"

fun parsedFragment :: "fragmentText \<Rightarrow> xnode list" where
  "parsedFragment (WellFormed node) = [node]"
| "parsedFragment (Malformed markup) = []"

definition parseFromString :: "string \<Rightarrow> fragmentText list \<Rightarrow> xnode" where
  "parseFromString rootName fragments =
     (if list_all isWellFormed fragments
      then Element rootName (concat (map parsedFragment fragments))
      else Element ''parsererror'' [Text ''XML Parsing Error''])"

section \<open>Vocabulary for the properties\<close>

text \<open>
  The sections each decoder insists on, in the order the code looks them up, and the
  first one of them that a given root element lacks.
\<close>

definition requiredSections01 :: "string list" where
  "requiredSections01 = [''MsgInfo'', ''EF'', ''IF'', ''Seller'', ''SellerDetails'']"

definition requiredSections02 :: "string list" where
  "requiredSections02 = [''MsgInfo'', ''EF'', ''IF'', ''Seller'', ''Buyer'', ''PrelCreditAssessDetails'']"

definition requiredSections05 :: "string list" where
  "requiredSections05 = [''MsgInfo'', ''EF'', ''IF'', ''Seller'', ''Buyer'', ''CreditCoverDetails'']"

definition requiredSections07 :: "string list" where
  "requiredSections07 =
     [''MsgInfo'', ''EF'', ''IF'', ''Seller'', ''Buyer'', ''CurrentCreditCoverDetails'',
      ''NewCreditCoverDetails'']"

definition firstMissing :: "xnode \<Rightarrow> string list \<Rightarrow> string option" where
  "firstMissing rootNode sections = find (\<lambda>tagName. querySelector rootNode tagName = None) sections"

text \<open>
  A number rounded to two decimals, a tie going away from zero: the value that the text
  of \<open>toFixed(2)\<close> denotes.
\<close>

fun roundToCents :: "jsnum \<Rightarrow> jsnum" where
  "roundToCents NaN = NaN"
| "roundToCents (Finite q) =
     Finite ((if q < 0 then - 1 else 1) * (of_int \<lfloor>\<bar>q\<bar> * 100 + 1 / 2\<rfloor> / 100))"
| "roundToCents PosInfinity = PosInfinity"
| "roundToCents NegInfinity = NegInfinity"

text \<open>
  What the loop over the message nodes does with one node: the decoder chosen by the node
  name fails, or the node yields a transaction.
\<close>

definition decodeFails :: "xnode \<Rightarrow> bool" where
  "decodeFails node \<longleftrightarrow>
     (nodeName node = ''MSG01'' \<and> isl (MSG01_fromXMLString node)) \<or>
     (nodeName node = ''MSG02'' \<and> isl (MSG02_fromXMLString node)) \<or>
     (nodeName node = ''MSG05'' \<and> isl (MSG05_fromXMLString node)) \<or>
     (nodeName node = ''MSG07'' \<and> isl (MSG07_fromXMLString node))"

definition decodedTransaction :: "xnode \<Rightarrow> transaction option" where
  "decodedTransaction node =
     (if nodeName node = ''MSG02'' then
        (case MSG02_fromXMLString node of Inl e \<Rightarrow> None | Inr m \<Rightarrow> Some (T02 m))
      else if nodeName node = ''MSG05'' then
        (case MSG05_fromXMLString node of Inl e \<Rightarrow> None | Inr m \<Rightarrow> Some (T05 m))
      else if nodeName node = ''MSG07'' then
        (case MSG07_fromXMLString node of Inl e \<Rightarrow> None | Inr m \<Rightarrow> Some (T07 m))
      else None)"

section \<open>Sample documents\<close>

text \<open>Concrete fragments on which the properties are exercised.\<close>

definition leaf :: "string \<Rightarrow> string \<Rightarrow> xnode" where
  "leaf tagName text = Element tagName [Text text]"

text \<open>A batch of four fragments, one of each kind, each lacking a required section.\<close>

definition fourIncompleteFragments :: xnode where
  "fourIncompleteFragments =
     Element ''Batch''
       [Element ''MSG01'' [Element ''MsgInfo'' [], Element ''EF'' []],
        Element ''MSG02''
          [Element ''MsgInfo'' [], Element ''EF'' [], Element ''IF'' [], Element ''Seller'' []],
        Element ''MSG05'' [Element ''MsgInfo'' [leaf ''SenderCode'' ''TR0001'']],
        Element ''MSG07''
          [Element ''MsgInfo'' [], Element ''EF'' [], Element ''IF'' [], Element ''Seller'' [],
           Element ''Buyer'' [], Element ''CurrentCreditCoverDetails'' []]]"

text \<open>A seller-information record (MSG01) for sender \<open>TR0001\<close>, seller \<open>S1\<close>.\<close>

definition sellerInformation :: "string \<Rightarrow> xnode" where
  "sellerInformation businessProduct =
     Element ''MSG01''
       [Element ''MsgInfo'' [leaf ''SenderCode'' ''TR0001'', leaf ''DateTime'' ''2024-01-10T08:00:00''],
        Element ''EF'' [leaf ''FactorCode'' ''TR0001'', leaf ''FactorName'' ''Export Bank''],
        Element ''IF'' [leaf ''FactorCode'' ''US0001'', leaf ''FactorName'' ''Import Factor''],
        Element ''Seller'' [leaf ''SellerNr'' ''S1'', leaf ''SellerName'' ''Seller Ltd''],
        Element ''SellerDetails'' [leaf ''BusinessProduct'' businessProduct, leaf ''NetPmtTerms'' ''60'']]"

text \<open>
  An assessment request (MSG02) of the same sender and seller; the metadata fields after
  the sender code, the export factor, the amount and the currency are given.
\<close>

definition assessmentRequest :: "xnode list \<Rightarrow> string \<Rightarrow> string \<Rightarrow> string \<Rightarrow> string \<Rightarrow> xnode" where
  "assessmentRequest msgInfoFields factorCode factorName amount cur =
     Element ''MSG02''
       [Element ''MsgInfo'' (leaf ''SenderCode'' ''TR0001'' # msgInfoFields),
        Element ''EF'' [leaf ''FactorCode'' factorCode, leaf ''FactorName'' factorName],
        Element ''IF'' [leaf ''FactorCode'' ''US0001''],
        Element ''Seller'' [leaf ''SellerNr'' ''S1'', leaf ''SellerName'' ''Seller Ltd''],
        Element ''Buyer'' [leaf ''BuyerName'' ''Buyer Inc'', leaf ''Country'' ''US''],
        Element ''PrelCreditAssessDetails''
          [leaf ''AmtCreditAssessReq'' amount, leaf ''Currency'' cur]]"

text \<open>What the browser answers on the inputs used below.\<close>

definition sampleRegionNames :: "string \<Rightarrow> string option" where
  "sampleRegionNames = map_of [(''TR'', ''Turkey''), (''US'', ''United States''), (''ZZ'', ''Unknown Region'')]"

definition sampleDateValue :: "string \<Rightarrow> int option" where
  "sampleDateValue = map_of [(''2024-01-01'', 1704067200000), (''2024-02-01'', 1706745600000)]"

text \<open>Three assessment requests; the second has no \<open>DateTime\<close> element.\<close>

definition undatedBetweenDated :: xnode where
  "undatedBetweenDated =
     Element ''Batch''
       [assessmentRequest [leaf ''DateTime'' ''2024-02-01T10:00:00''] ''TR0001'' ''Export Bank'' ''100'' ''EUR'',
        assessmentRequest [] ''TR0001'' ''Export Bank'' ''200'' ''EUR'',
        assessmentRequest [leaf ''DateTime'' ''2024-01-01T09:30:00''] ''TR0001'' ''Export Bank'' ''300'' ''EUR'']"

text \<open>A cover request with nothing but its metadata block.\<close>

definition truncatedCoverRequest :: xnode where
  "truncatedCoverRequest = Element ''MSG05'' [Element ''MsgInfo'' [leaf ''SenderCode'' ''TR0001'']]"

text \<open>
  An assessment request whose export factor block has a code but no name element, for
  600000 USD.
\<close>

definition requestWithoutFactorName :: xnode where
  "requestWithoutFactorName =
     Element ''MSG02''
       [Element ''MsgInfo'' [leaf ''SenderCode'' ''TR0001'', leaf ''DateTime'' ''2024-01-01T09:30:00''],
        Element ''EF'' [leaf ''FactorCode'' ''US0001''],
        Element ''IF'' [leaf ''FactorCode'' ''TR0001''],
        Element ''Seller'' [leaf ''SellerNr'' ''S1'', leaf ''SellerName'' ''Seller Ltd''],
        Element ''Buyer'' [leaf ''BuyerName'' ''Buyer Inc'', leaf ''Country'' ''US''],
        Element ''PrelCreditAssessDetails''
          [leaf ''AmtCreditAssessReq'' ''600000'', leaf ''Currency'' ''USD'']]"

section \<open>Properties\<close>

subsection \<open>Evaluation rules for concrete inputs\<close>

lemmas scan_defs =
  parseFloatString_def Number_def trim_def trimStart_def isWhiteSpace_def scanRadix_def
  scanDecimal_def scanUnsigned_def scanExponent_def isDigit_def digitsValue_def digitVal_def
  pow10_def

subsection \<open>Classification\<close>

lemma special_not_listed:
  "countryCode \<in> set treySpecialCodes \<Longrightarrow> countryCode \<notin> set treyCountryCodes"
  by (auto simp: treySpecialCodes_def treyCountryCodes_def)

text \<open>
  C3. Whatever the country code and the partner name (even a missing name), an amount
  that reads as a number not above 500000 is assigned to \<open>lux\<close>, and an amount that
  does not read as a number gets the label \<open>N/A\<close>. The amount is what \<open>parseFloat\<close>
  makes of the argument; the middle line is the same fact for an argument that is a
  number already.
\<close>

theorem threshold_rule_dominates:
  "(num_le (parseFloat usdAmount) (Finite 500000) \<longrightarrow>
      getCreditManager countryCode usdAmount factorName = Inr ''lux'') \<and>
   (q \<le> 500000 \<longrightarrow> getCreditManager countryCode (JNum (Finite q)) factorName = Inr ''lux'') \<and>
   (isNaN (parseFloat usdAmount) \<longrightarrow>
      getCreditManager countryCode usdAmount factorName = Inr ''N/A'')"
  by (cases "parseFloat usdAmount") (simp_all add: getCreditManager_def isNaN_def)

theorem threshold_rule_dominates_witness:
  "num_le (parseFloat (JStr ''100000'')) (Finite 500000) \<and>
   getCreditManager ''US'' (JStr ''100000'') (Some ''Standard Chartered Bank New York'') = Inr ''lux'' \<and>
   (100000::rat) \<le> 500000 \<and>
   getCreditManager ''IN'' (JNum (Finite 100000)) None = Inr ''lux'' \<and>
   isNaN (parseFloat (JStr ''Invalid Amount'')) \<and>
   getCreditManager ''SG'' (JStr ''Invalid Amount'') None = Inr ''N/A''"
proof -
  have a: "num_le (parseFloat (JStr ''100000'')) (Finite 500000)"
    by (simp add: scan_defs)
  have b: "(100000::rat) \<le> 500000"
    by simp
  have c: "isNaN (parseFloat (JStr ''Invalid Amount''))"
    by (simp add: scan_defs isNaN_def)
  from a b c
    threshold_rule_dominates [of "JStr ''100000''" "''US''" "Some ''Standard Chartered Bank New York''" 0]
    threshold_rule_dominates [of JNull "''IN''" None 100000]
    threshold_rule_dominates [of "JStr ''Invalid Amount''" "''SG''" None 0]
  show ?thesis by blast
qed

text \<open>
  Above 500000, for the country codes SG, JP and US, the partner name decides: a name
  that is a string gives \<open>trey\<close> exactly when it contains the text required for that
  country and \<open>bost\<close> otherwise; a \<open>null\<close> name makes the call throw.
\<close>

lemma special_country_rule:
  assumes "\<not> isNaN (parseFloat usdAmount)"
    and "\<not> num_le (parseFloat usdAmount) (Finite 500000)"
    and "countryCode \<in> set treySpecialCodes"
  shows "getCreditManager countryCode usdAmount factorName =
           (case factorName of
              None \<Rightarrow> Inl (TypeError ''includes'')
            | Some name \<Rightarrow>
                Inr (if (countryCode = ''SG'' \<and> str_includes name ''Mogli'') \<or>
                        (countryCode = ''JP'' \<and> (str_includes name ''Mitsubishi'' \<or>
                                                  str_includes name ''Sumitomo Mitsui'')) \<or>
                        (countryCode = ''US'' \<and> str_includes name ''Standard Chartered Bank New York'')
                     then ''trey'' else ''bost''))"
  using assms special_not_listed [OF assms(3)]
  by (cases factorName) (auto simp: getCreditManager_def)

lemma special_country_examples:
  "getCreditManager ''US'' (JNum (Finite 600000)) (Some ''Standard Chartered Bank New York'') = Inr ''trey''"
  "getCreditManager ''US'' (JNum (Finite 600000)) (Some ''The Standard Chartered Bank New York Branch'') = Inr ''trey''"
  "getCreditManager ''US'' (JNum (Finite 600000)) (Some ''Standard Chartered Bank'') = Inr ''bost''"
  "getCreditManager ''US'' (JNum (Finite 600000)) (Some ''Other Bank'') = Inr ''bost''"
  "getCreditManager ''SG'' (JNum (Finite 600000)) (Some ''DBS Mogli Factoring'') = Inr ''trey''"
  "getCreditManager ''SG'' (JNum (Finite 600000)) (Some ''Mitsubishi'') = Inr ''bost''"
  "getCreditManager ''JP'' (JNum (Finite 600000)) (Some ''Sumitomo Mitsui Banking Corporation'') = Inr ''trey''"
  "getCreditManager ''JP'' (JNum (Finite 600000)) (Some ''MUFG Mitsubishi UFJ'') = Inr ''trey''"
  "getCreditManager ''JP'' (JNum (Finite 600000)) (Some ''Mizuho Factors'') = Inr ''bost''"
  by code_simp+

text \<open>
  C4. For SG, JP and US above 500000 the result should be \<open>trey\<close> when the partner
  name contains the required text and \<open>bost\<close> otherwise. The code does so for every
  name that is a string, but not for the name it is given when the export factor block
  has no \<open>FactorName\<close> element: the decoder stores \<open>null\<close>, the row builder passes it
  on, and \<open>factorName.includes\<close> throws a \<open>TypeError\<close> that nothing catches, so no
  row of the batch is produced.
\<close>

theorem null_partner_name_throws:
  "map_sum id (FactorName \<circ> MSG02.ef) (MSG02_fromXMLString requestWithoutFactorName) = Inr None \<and>
   getCreditManager ''US'' (JNum (Finite 600000)) None = Inl (TypeError ''includes'') \<and>
   snd (processButton_click sampleRegionNames sampleDateValue initialGlobals
          (FetchSucceeded [''USD'' \<mapsto> 1]) [requestWithoutFactorName])
     = Some (Inl (TypeError ''includes''))"
  by code_simp

subsection \<open>Decoders\<close>

text \<open>
  C1. The numeric-or-null rule as the code has it. A numeric field is \<open>null\<close> exactly
  when its element is absent or has empty text. Any other text is handed to \<open>Number\<close>
  and the field holds the result, which is \<open>NaN\<close> for text that is no numeric literal;
  no error is raised (the helper has no failing branch).
\<close>

theorem getElementNumber_rule:
  "(getElementNumber element tagName = None \<longleftrightarrow>
      getElementText element tagName = None \<or> getElementText element tagName = Some '''') \<and>
   (getElementText element tagName = Some text \<and> text \<noteq> '''' \<longrightarrow>
      getElementNumber element tagName = Some (Number text))"
  by (auto simp: getElementNumber_def split: option.splits)

theorem getElementNumber_rule_witness:
  "getElementText (Element ''PrelCreditAssessDetails'' [Element ''AmtCreditAssessReq'' [Text ''12.5'']])
     ''AmtCreditAssessReq'' = Some ''12.5'' \<and>
   ''12.5'' \<noteq> '''' \<and>
   getElementNumber (Element ''PrelCreditAssessDetails'' [Element ''AmtCreditAssessReq'' [Text ''12.5'']])
     ''AmtCreditAssessReq'' = Some (Finite (25 / 2))"
proof -
  have t: "getElementText (Element ''PrelCreditAssessDetails'' [Element ''AmtCreditAssessReq'' [Text ''12.5'']])
             ''AmtCreditAssessReq'' = Some ''12.5''"
    by (simp add: getElementText_def querySelector_def)
  have n: "Number ''12.5'' = Finite (25 / 2)"
    by (simp add: scan_defs)
  from getElementNumber_rule
         [of "Element ''PrelCreditAssessDetails'' [Element ''AmtCreditAssessReq'' [Text ''12.5'']]"
             "''AmtCreditAssessReq''" "''12.5''"] t n
  show ?thesis by simp
qed

text \<open>
  As the specification states it, C1 fails on text that is not a number: the assessment-request decoder
  accepts the fragment and stores \<open>NaN\<close> in the amount, not \<open>null\<close>.
\<close>

theorem unparsable_number_counterexample:
  "map_sum id (AmtCreditAssessReq \<circ> prelCreditAssessDetails)
     (MSG02_fromXMLString
        (Element ''MSG02''
           [Element ''MsgInfo'' [], Element ''EF'' [], Element ''IF'' [], Element ''Seller'' [],
            Element ''Buyer'' [],
            Element ''PrelCreditAssessDetails'' [Element ''AmtCreditAssessReq'' [Text ''abc'']]]))
   = Inr (Some NaN)"
  by code_simp

text \<open>
  C2. Structural validation, as the code has it. Provided the document holds no parser
  error, a decoder whose root lacks a required section returns an error that depends on
  the structure alone. MSG01 and MSG02 name the kind and the first missing section;
  MSG05 and MSG07 name the kind only.
\<close>

theorem missing_section_errors:
  assumes "docQuerySelector xmlDoc ''parsererror'' = None"
  shows
   "(docQuerySelector xmlDoc ''MSG01'' = Some r1 \<and> firstMissing r1 requiredSections01 = Some tag1 \<longrightarrow>
       MSG01_fromXMLString xmlDoc =
         Inl (Error (''Invalid MSG01 XML structure: <'' @ tag1 @ ''> element not found.''))) \<and>
    (docQuerySelector xmlDoc ''MSG02'' = Some r2 \<and> firstMissing r2 requiredSections02 = Some tag2 \<longrightarrow>
       MSG02_fromXMLString xmlDoc =
         Inl (Error (''Invalid MSG02 XML structure: <'' @ tag2 @ ''> element not found.''))) \<and>
    (docQuerySelector xmlDoc ''MSG05'' = Some r5 \<and> firstMissing r5 requiredSections05 = Some tag5 \<longrightarrow>
       MSG05_fromXMLString xmlDoc = Inl (Error ''Missing required elements in MSG05 XML.'')) \<and>
    (docQuerySelector xmlDoc ''MSG07'' = Some r7 \<and> firstMissing r7 requiredSections07 = Some tag7 \<longrightarrow>
       MSG07_fromXMLString xmlDoc = Inl (Error ''Missing required elements in MSG07 XML.''))"
proof (intro conjI impI)
  assume "docQuerySelector xmlDoc ''MSG01'' = Some r1 \<and> firstMissing r1 requiredSections01 = Some tag1"
  with assms show "MSG01_fromXMLString xmlDoc =
      Inl (Error (''Invalid MSG01 XML structure: <'' @ tag1 @ ''> element not found.''))"
    by (auto simp: MSG01_fromXMLString_def firstMissing_def requiredSections01_def
             split: if_splits option.splits)
next
  assume "docQuerySelector xmlDoc ''MSG02'' = Some r2 \<and> firstMissing r2 requiredSections02 = Some tag2"
  with assms show "MSG02_fromXMLString xmlDoc =
      Inl (Error (''Invalid MSG02 XML structure: <'' @ tag2 @ ''> element not found.''))"
    by (auto simp: MSG02_fromXMLString_def firstMissing_def requiredSections02_def
             split: if_splits option.splits)
next
  assume "docQuerySelector xmlDoc ''MSG05'' = Some r5 \<and> firstMissing r5 requiredSections05 = Some tag5"
  with assms show "MSG05_fromXMLString xmlDoc = Inl (Error ''Missing required elements in MSG05 XML.'')"
    by (auto simp: MSG05_fromXMLString_def firstMissing_def requiredSections05_def
             split: if_splits option.splits)
next
  assume "docQuerySelector xmlDoc ''MSG07'' = Some r7 \<and> firstMissing r7 requiredSections07 = Some tag7"
  with assms show "MSG07_fromXMLString xmlDoc = Inl (Error ''Missing required elements in MSG07 XML.'')"
    by (auto simp: MSG07_fromXMLString_def firstMissing_def requiredSections07_def
             split: if_splits option.splits)
qed

theorem missing_section_errors_witness:
  "docQuerySelector fourIncompleteFragments ''parsererror'' = None \<and>
   MSG01_fromXMLString fourIncompleteFragments =
     Inl (Error ''Invalid MSG01 XML structure: <IF> element not found.'') \<and>
   MSG02_fromXMLString fourIncompleteFragments =
     Inl (Error ''Invalid MSG02 XML structure: <Buyer> element not found.'') \<and>
   MSG05_fromXMLString fourIncompleteFragments =
     Inl (Error ''Missing required elements in MSG05 XML.'') \<and>
   MSG07_fromXMLString fourIncompleteFragments =
     Inl (Error ''Missing required elements in MSG07 XML.'')"
proof -
  have p: "docQuerySelector fourIncompleteFragments ''parsererror'' = None"
    by code_simp
  have r1: "docQuerySelector fourIncompleteFragments ''MSG01'' =
              Some (Element ''MSG01'' [Element ''MsgInfo'' [], Element ''EF'' []])"
    by code_simp
  have m1: "firstMissing (Element ''MSG01'' [Element ''MsgInfo'' [], Element ''EF'' []])
              requiredSections01 = Some ''IF''"
    by code_simp
  have r2: "docQuerySelector fourIncompleteFragments ''MSG02'' =
              Some (Element ''MSG02''
                      [Element ''MsgInfo'' [], Element ''EF'' [], Element ''IF'' [], Element ''Seller'' []])"
    by code_simp
  have m2: "firstMissing
              (Element ''MSG02''
                 [Element ''MsgInfo'' [], Element ''EF'' [], Element ''IF'' [], Element ''Seller'' []])
              requiredSections02 = Some ''Buyer''"
    by code_simp
  have r5: "docQuerySelector fourIncompleteFragments ''MSG05'' =
              Some (Element ''MSG05'' [Element ''MsgInfo'' [leaf ''SenderCode'' ''TR0001'']])"
    by code_simp
  have m5: "firstMissing (Element ''MSG05'' [Element ''MsgInfo'' [leaf ''SenderCode'' ''TR0001'']])
              requiredSections05 = Some ''EF''"
    by code_simp
  have r7: "docQuerySelector fourIncompleteFragments ''MSG07'' =
              Some (Element ''MSG07''
                      [Element ''MsgInfo'' [], Element ''EF'' [], Element ''IF'' [], Element ''Seller'' [],
                       Element ''Buyer'' [], Element ''CurrentCreditCoverDetails'' []])"
    by code_simp
  have m7: "firstMissing
              (Element ''MSG07''
                 [Element ''MsgInfo'' [], Element ''EF'' [], Element ''IF'' [], Element ''Seller'' [],
                  Element ''Buyer'' [], Element ''CurrentCreditCoverDetails'' []])
              requiredSections07 = Some ''NewCreditCoverDetails''"
    by code_simp
  from missing_section_errors [OF p,
         where ?r1.0 = "Element ''MSG01'' [Element ''MsgInfo'' [], Element ''EF'' []]"
           and ?tag1.0 = "''IF''"
           and ?r2.0 = "Element ''MSG02''
                      [Element ''MsgInfo'' [], Element ''EF'' [], Element ''IF'' [], Element ''Seller'' []]"
           and ?tag2.0 = "''Buyer''"
           and ?r5.0 = "Element ''MSG05'' [Element ''MsgInfo'' [leaf ''SenderCode'' ''TR0001'']]"
           and ?tag5.0 = "''EF''"
           and ?r7.0 = "Element ''MSG07''
                      [Element ''MsgInfo'' [], Element ''EF'' [], Element ''IF'' [], Element ''Seller'' [],
                       Element ''Buyer'' [], Element ''CurrentCreditCoverDetails'' []]"
           and ?tag7.0 = "''NewCreditCoverDetails''"]
       p r1 m1 r2 m2 r5 m5 r7 m7
  show ?thesis by simp
qed

text \<open>
  As the specification states it, C2 fails for the cover request: the only section missing is the
  buyer block, and the error message does not mention it.
\<close>

theorem missing_section_unnamed_counterexample:
  "firstMissing
     (Element ''MSG05''
        [Element ''MsgInfo'' [], Element ''EF'' [], Element ''IF'' [], Element ''Seller'' [],
         Element ''CreditCoverDetails'' []])
     requiredSections05 = Some ''Buyer'' \<and>
   MSG05_fromXMLString
     (Element ''MSG05''
        [Element ''MsgInfo'' [], Element ''EF'' [], Element ''IF'' [], Element ''Seller'' [],
         Element ''CreditCoverDetails'' []])
     = Inl (Error ''Missing required elements in MSG05 XML.'') \<and>
   \<not> str_includes ''Missing required elements in MSG05 XML.'' ''Buyer''"
  by code_simp

subsection \<open>Conversion\<close>

lemma toUpperCase_samples:
  "toUpperCase ''USD'' = ''USD''" "toUpperCase ''ZZZ'' = ''ZZZ''" "toUpperCase ''EUR'' = ''EUR''"
  by code_simp+

text \<open>
  C5. The rate-not-found placeholder, as the code produces it. The amount must read as a
  number and the currency code must be non-empty; the code is looked up in upper case;
  the upper-case code must not be USD (that case returns the amount before any lookup) and
  the table must hold no rate, or a zero rate, under it. The result is then the text made
  of the amount to two decimals, the currency code as given and \<open>(No Rate)\<close>. The
  function has no failing branch.
\<close>

theorem rate_not_found_placeholder:
  assumes "amount \<noteq> JNull" and "amount \<noteq> JStr ''''"
    and "\<not> isNaN (parseFloat amount)"
    and "cur \<noteq> ''''"
    and "toUpperCase cur \<noteq> ''USD''"
    and "table (toUpperCase cur) = None \<or> table (toUpperCase cur) = Some 0"
  shows "convertToUSD amount (Some cur) (Some table) =
           JStr (toFixed (parseFloat amount) 2 @ '' '' @ cur @ '' (No Rate)'')"
  using assms by (auto simp: convertToUSD_def)

theorem rate_not_found_placeholder_witness:
  "convertToUSD (JStr ''100'') (Some ''ZZZ'') (Some [''USD'' \<mapsto> 1, ''EUR'' \<mapsto> 9 / 10]) =
     JStr ''100.00 ZZZ (No Rate)''"
proof -
  have p: "parseFloatString ''100'' = Finite 100"
    by (simp add: scan_defs)
  have f: "toFixed (Finite 100) 2 = ''100.00''"
    by code_simp
  have n: "\<not> isNaN (parseFloat (JStr ''100''))"
    by (simp add: p isNaN_def)
  have t: "[''USD'' \<mapsto> 1, ''EUR'' \<mapsto> 9 / (10::rat)] (toUpperCase ''ZZZ'') = None \<or>
           [''USD'' \<mapsto> 1, ''EUR'' \<mapsto> 9 / (10::rat)] (toUpperCase ''ZZZ'') = Some 0"
    by (simp add: toUpperCase_samples)
  from rate_not_found_placeholder
         [of "JStr ''100''" "''ZZZ''" "[''USD'' \<mapsto> 1, ''EUR'' \<mapsto> 9 / 10]", OF _ _ n _ _ t]
  show ?thesis by (simp add: p f toUpperCase_samples)
qed

text \<open>
  As the specification states it, C5 fails for the code USD: a table without an entry for USD does not
  lead to the placeholder, the amount is returned as it is.
\<close>

theorem usd_missing_from_table_counterexample:
  "[''EUR'' \<mapsto> 9 / 10] ''USD'' = None \<and>
   convertToUSD (JNum (Finite 100)) (Some ''USD'') (Some [''EUR'' \<mapsto> 9 / 10]) = JNum (Finite 100)"
  by (simp add: convertToUSD_def isNaN_def toUpperCase_samples)

subsection \<open>The reference store\<close>

lemma processMsgNode_MSG01:
  "nodeName node = ''MSG01'' \<Longrightarrow> MSG01_fromXMLString node = Inr inst \<Longrightarrow>
     processMsgNode g node =
       g\<lparr> allMsg01s := (allMsg01s g)
            (correlationKey (SenderCode (MSG01.msgInfo inst)) (SellerNr (MSG01.seller inst)) \<mapsto> inst) \<rparr>"
  by (simp add: processMsgNode_def)

text \<open>
  C7. A decoded reference record is found under its key right after it is stored. A second
  record with the same sender code and seller number takes its place: the lookup returns
  the second record, and the collections are what they would be had the first never been
  stored.
\<close>

theorem reference_last_write_wins:
  assumes "nodeName node1 = ''MSG01''" and "MSG01_fromXMLString node1 = Inr inst1"
    and "nodeName node2 = ''MSG01''" and "MSG01_fromXMLString node2 = Inr inst2"
    and "SenderCode (MSG01.msgInfo inst2) = SenderCode (MSG01.msgInfo inst1)"
    and "SellerNr (MSG01.seller inst2) = SellerNr (MSG01.seller inst1)"
  shows "allMsg01s (processMsgNode g node1)
           (correlationKey (SenderCode (MSG01.msgInfo inst1)) (SellerNr (MSG01.seller inst1))) = Some inst1 \<and>
         allMsg01s (processMsgNode (processMsgNode g node1) node2)
           (correlationKey (SenderCode (MSG01.msgInfo inst1)) (SellerNr (MSG01.seller inst1))) = Some inst2 \<and>
         processMsgNode (processMsgNode g node1) node2 = processMsgNode g node2"
  using assms by (simp add: processMsgNode_MSG01)

theorem reference_last_write_wins_witness:
  "nodeName (sellerInformation ''Textiles'') = ''MSG01'' \<and>
   nodeName (sellerInformation ''Steel'') = ''MSG01'' \<and>
   map_sum id (BusinessProduct \<circ> sellerDetails) (MSG01_fromXMLString (sellerInformation ''Textiles''))
     = Inr (Some ''Textiles'') \<and>
   map_sum id (BusinessProduct \<circ> sellerDetails) (MSG01_fromXMLString (sellerInformation ''Steel''))
     = Inr (Some ''Steel'') \<and>
   map_option (BusinessProduct \<circ> sellerDetails)
     (allMsg01s (processMsgNode initialGlobals (sellerInformation ''Textiles'')) ''TR0001_S1'')
     = Some (Some ''Textiles'') \<and>
   map_option (BusinessProduct \<circ> sellerDetails)
     (allMsg01s (processMsgNode (processMsgNode initialGlobals (sellerInformation ''Textiles''))
                   (sellerInformation ''Steel'')) ''TR0001_S1'')
     = Some (Some ''Steel'')"
proof -
  let ?d1 = "sellerInformation ''Textiles''" and ?d2 = "sellerInformation ''Steel''"
  let ?i1 = "projr (MSG01_fromXMLString ?d1)" and ?i2 = "projr (MSG01_fromXMLString ?d2)"
  have n1: "nodeName ?d1 = ''MSG01''" and n2: "nodeName ?d2 = ''MSG01''"
    by (simp_all add: sellerInformation_def)
  have "\<not> isl (MSG01_fromXMLString ?d1)" and "\<not> isl (MSG01_fromXMLString ?d2)"
    by code_simp+
  then have e1: "MSG01_fromXMLString ?d1 = Inr ?i1" and e2: "MSG01_fromXMLString ?d2 = Inr ?i2"
    by simp_all
  have b1: "map_sum id (BusinessProduct \<circ> sellerDetails) (MSG01_fromXMLString ?d1) = Inr (Some ''Textiles'')"
   and b2: "map_sum id (BusinessProduct \<circ> sellerDetails) (MSG01_fromXMLString ?d2) = Inr (Some ''Steel'')"
    by code_simp+
  have s: "SenderCode (MSG01.msgInfo ?i1) = Some ''TR0001''" "SenderCode (MSG01.msgInfo ?i2) = Some ''TR0001''"
          "SellerNr (MSG01.seller ?i1) = Some ''S1''" "SellerNr (MSG01.seller ?i2) = Some ''S1''"
    by code_simp+
  have k: "correlationKey (Some ''TR0001'') (Some ''S1'') = ''TR0001_S1''"
    by (simp add: correlationKey_def templateText_def)
  have p1: "BusinessProduct (sellerDetails ?i1) = Some ''Textiles''"
   and p2: "BusinessProduct (sellerDetails ?i2) = Some ''Steel''"
    by code_simp+
  have q1: "SenderCode (MSG01.msgInfo ?i2) = SenderCode (MSG01.msgInfo ?i1)"
   and q2: "SellerNr (MSG01.seller ?i2) = SellerNr (MSG01.seller ?i1)"
    by (simp_all only: s)
  note stored = reference_last_write_wins [OF n1 e1 n2 e2 q1 q2, of initialGlobals]
  have c1: "allMsg01s (processMsgNode initialGlobals ?d1) ''TR0001_S1'' = Some ?i1"
    using stored [THEN conjunct1] by (simp only: s k)
  have c2: "allMsg01s (processMsgNode (processMsgNode initialGlobals ?d1) ?d2) ''TR0001_S1'' = Some ?i2"
    using stored [THEN conjunct2, THEN conjunct1] by (simp only: s k)
  show ?thesis
    using n1 n2 b1 b2 by (simp add: c1 c2 p1 p2)
qed

subsection \<open>The rate table across batches\<close>

lemma exchangeRates_processMsgNode [simp]:
  "exchangeRates (processMsgNode g node) = exchangeRates g"
  by (simp add: processMsgNode_def split: sum.splits)

lemma exchangeRates_processMsgNodes [simp]:
  "exchangeRates (processMsgNodes g msgNodes) = exchangeRates g"
  unfolding processMsgNodes_def by (induction msgNodes arbitrary: g) simp_all

lemma exchangeRates_processDocuments [simp]:
  "exchangeRates (foldl processDocument g uploadedFiles) = exchangeRates g"
  by (induction uploadedFiles arbitrary: g) (simp_all add: processDocument_def)




subsection \<open>Printed numbers read back\<close>




lemma digitsOf_nonempty: "digitsOf n \<noteq> []"
  by (subst digitsOf.simps) simp











lemma roundToCents_NaN [simp]: "roundToCents x = NaN \<longleftrightarrow> x = NaN"
  by (cases x) simp_all

subsection \<open>Classification of conversion results\<close>

lemma num_div_NaN [simp]: "num_div x r = NaN \<longleftrightarrow> x = NaN"
  by (cases x) simp_all







subsection \<open>Row order\<close>

lemma insertInOrder_dates:
  assumes "dateValue (dateReceived x) \<noteq> None"
    and "\<forall>y \<in> set ys. dateValue (dateReceived y) \<noteq> None"
  shows "insertInOrder (dateDifference dateValue) x ys =
           insort_key (\<lambda>r. the (dateValue (dateReceived r))) x ys"
  using assms by (induction ys) (auto simp: dateDifference_def)

lemma arraySort_dates:
  assumes "\<forall>r \<in> set rows. dateValue (dateReceived r) \<noteq> None"
  shows "arraySort (dateDifference dateValue) rows =
           sort_key (\<lambda>r. the (dateValue (dateReceived r))) rows"
  using assms
proof (induction rows)
  case Nil
  then show ?case by (simp add: arraySort_def)
next
  case (Cons x rows)
  let ?key = "\<lambda>r. the (dateValue (dateReceived r))"
  from Cons have sorted_tail: "arraySort (dateDifference dateValue) rows = sort_key ?key rows"
    by simp
  from Cons.prems have "dateValue (dateReceived x) \<noteq> None"
    and "\<forall>y \<in> set (sort_key ?key rows). dateValue (dateReceived y) \<noteq> None"
    by simp_all
  then have "insertInOrder (dateDifference dateValue) x (sort_key ?key rows) =
      insort_key ?key x (sort_key ?key rows)"
    by (rule insertInOrder_dates)
  moreover have "arraySort (dateDifference dateValue) (x # rows) =
      insertInOrder (dateDifference dateValue) x (arraySort (dateDifference dateValue) rows)"
    by (simp add: arraySort_def)
  ultimately show ?case
    by (simp add: sorted_tail)
qed

text \<open>
  When every row has a date the engine can read, the rows come out in ascending order
  of that date and rows of the same date keep their order: the sort is the stable sort
  by date value.
\<close>

lemma rows_sorted_when_dates_valid:
  assumes "\<forall>r \<in> set rows. dateValue (dateReceived r) \<noteq> None"
  shows "sorted (map (\<lambda>r. the (dateValue (dateReceived r))) (arraySort (dateDifference dateValue) rows))"
    and "filter (\<lambda>r. the (dateValue (dateReceived r)) = k) (arraySort (dateDifference dateValue) rows) =
         filter (\<lambda>r. the (dateValue (dateReceived r)) = k) rows"
    and "set (arraySort (dateDifference dateValue) rows) = set rows"
    and "length (arraySort (dateDifference dateValue) rows) = length rows"
  by (simp_all add: arraySort_dates [OF assms] sort_key_stable)

text \<open>
  C6. A transaction without a \<open>DateTime\<close> element gets the empty string for its date,
  which is no valid date: every comparison with it is \<open>NaN\<close> and counts as a tie. The
  row then stays where it is and separates its neighbours: the February row stays before
  the January row.
\<close>

theorem undated_row_breaks_order:
  "map_option (map_sum id (map dateReceived))
     (snd (processButton_click sampleRegionNames sampleDateValue initialGlobals FetchFailed
             [undatedBetweenDated]))
   = Some (Inr [''2024-02-01'', '''', ''2024-01-01''])"
  by code_simp

subsection \<open>Decode errors\<close>

lemma processMsgNode_failed: "decodeFails node \<Longrightarrow> processMsgNode g node = g"
  by (auto simp: decodeFails_def processMsgNode_def split: sum.splits)

lemma allTransactions_decoded:
  assumes "allTransactions g = []" and "decodedTransaction node = Some msg"
  shows "allTransactions (processMsgNode g node) = [msg]"
  using assms
  by (auto simp: allTransactions_def decodedTransaction_def processMsgNode_def
           split: if_splits sum.splits)

lemma allTransactions_reference:
  "nodeName node = ''MSG01'' \<Longrightarrow> allTransactions (processMsgNode g node) = allTransactions g"
  by (simp add: allTransactions_def processMsgNode_def split: sum.splits)

lemma arraySort_single [simp]: "arraySort comparefn [x] = [x]"
  by (simp add: arraySort_def)

lemma arraySort_empty [simp]: "arraySort comparefn [] = []"
  by (simp add: arraySort_def)

text \<open>
  Within a document that parsed, a fragment whose decoder fails leaves the collections as
  they were, and the fragments beside it are processed as if it were not there.
\<close>

lemma decode_error_skips_one_fragment:
  "(decodeFails bad \<longrightarrow>
      processMsgNode g bad = g \<and>
      processMsgNodes g [good, bad] = processMsgNodes g [good] \<and>
      processMsgNodes g [bad, good] = processMsgNodes g [good]) \<and>
   (decodeFails bad \<and> allTransactions g = [] \<and> decodedTransaction good = Some msg \<and>
    buildRow regionNamesOf (processMsgNode g good) msg = Inr r \<longrightarrow>
      generateCombinedDisplayData regionNamesOf dateValue (processMsgNodes g [good, bad]) = Inr [r] \<and>
      generateCombinedDisplayData regionNamesOf dateValue (processMsgNodes g [bad, good]) = Inr [r]) \<and>
   (decodeFails bad \<and> allTransactions g = [] \<and> nodeName good = ''MSG01'' \<longrightarrow>
      generateCombinedDisplayData regionNamesOf dateValue (processMsgNodes g [good, bad]) = Inr [] \<and>
      generateCombinedDisplayData regionNamesOf dateValue (processMsgNodes g [bad, good]) = Inr [])"
proof (intro conjI impI)
  assume "decodeFails bad"
  then show "processMsgNode g bad = g"
    and "processMsgNodes g [good, bad] = processMsgNodes g [good]"
    and "processMsgNodes g [bad, good] = processMsgNodes g [good]"
    by (simp_all add: processMsgNodes_def processMsgNode_failed)
next
  assume h: "decodeFails bad \<and> allTransactions g = [] \<and> decodedTransaction good = Some msg \<and>
    buildRow regionNamesOf (processMsgNode g good) msg = Inr r"
  then have "allTransactions (processMsgNode g good) = [msg]"
    by (simp add: allTransactions_decoded)
  with h have one: "generateCombinedDisplayData regionNamesOf dateValue (processMsgNode g good) = Inr [r]"
    by (simp add: generateCombinedDisplayData_def)
  from h one show "generateCombinedDisplayData regionNamesOf dateValue (processMsgNodes g [good, bad]) = Inr [r]"
    by (simp add: processMsgNodes_def processMsgNode_failed)
  from h one show "generateCombinedDisplayData regionNamesOf dateValue (processMsgNodes g [bad, good]) = Inr [r]"
    by (simp add: processMsgNodes_def processMsgNode_failed)
next
  assume h: "decodeFails bad \<and> allTransactions g = [] \<and> nodeName good = ''MSG01''"
  then have "allTransactions (processMsgNode g good) = []"
    by (simp add: allTransactions_reference)
  then have none: "generateCombinedDisplayData regionNamesOf dateValue (processMsgNode g good) = Inr []"
    by (simp add: generateCombinedDisplayData_def)
  from h none show "generateCombinedDisplayData regionNamesOf dateValue (processMsgNodes g [good, bad]) = Inr []"
    by (simp add: processMsgNodes_def processMsgNode_failed)
  from h none show "generateCombinedDisplayData regionNamesOf dateValue (processMsgNodes g [bad, good]) = Inr []"
    by (simp add: processMsgNodes_def processMsgNode_failed)
qed

text \<open>
  C8. A batch of one well-formed and one malformed fragment should give exactly one row,
  the malformed fragment being skipped. The code loses the well-formed fragment too when
  both are in one file: the file is parsed as a whole before any fragment is looked at,
  the parser answers with a \<open>parsererror\<close> document, and no message node is found
  (the same fragment alone in a file gives its row). And a decode error beside a
  well-formed fragment does not keep the batch from being aborted: when the enrichment
  of the well-formed fragment throws, no row is produced at all.
\<close>

theorem malformed_fragment_loses_batch:
  "snd (processButton_click sampleRegionNames sampleDateValue initialGlobals FetchFailed
          [parseFromString ''Batch''
             [WellFormed (assessmentRequest [leaf ''DateTime'' ''2024-01-01T09:30:00''] ''TR0001''
                            ''Export Bank'' ''100'' ''EUR''),
              Malformed ''<MSG05><MsgInfo></MSG05>'']])
     = Some (Inr []) \<and>
   map_option (map_sum id length)
     (snd (processButton_click sampleRegionNames sampleDateValue initialGlobals FetchFailed
             [parseFromString ''Batch''
                [WellFormed (assessmentRequest [leaf ''DateTime'' ''2024-01-01T09:30:00''] ''TR0001''
                               ''Export Bank'' ''100'' ''EUR'')]]))
     = Some (Inr 1) \<and>
   decodeFails truncatedCoverRequest \<and>
   snd (processButton_click sampleRegionNames sampleDateValue initialGlobals
          (FetchSucceeded [''USD'' \<mapsto> 1])
          [Element ''Batch'' [requestWithoutFactorName, truncatedCoverRequest]])
     = Some (Inl (TypeError ''includes''))"
  by code_simp

end
